theory Spec2Isabelle
  imports Complex_Main
begin

section \<open>The stock ledger of dashboard.py\<close>

text \<open>
  dashboard.py keeps four SQLite tables (inventory, formula, production_history,
  transactions) and changes them through a handful of functions, each of which opens a
  connection, runs its statements and commits. The tables are modelled as lists of rows
  in insertion order, a row as a record with one field per column, and each function as
  a function from the database before the call to the database after it.

  Numbers: the REAL columns and the Python floats passed around are taken as exact reals
  (\<^typ>\<open>real\<close>) in the definitions that follow; the second part of the definitions
  repeats the functions with every result rounded to a double, for the properties in
  which one statement undoes another. The stock column is taken to hold a number in
  every row (\<open>add_new_ingredient\<close> always writes 0 there).
  Timestamps (\<open>datetime.now()\<close>) are an argument of the function that reads the clock.
\<close>

subsection \<open>Rows and tables\<close>

type_synonym timestamp = nat

record inventory_row =
  inv_id :: int
  inv_name :: string
  inv_stock :: real
  inv_expiry :: "string option"
  inv_vendor :: "string option"
  inv_price :: "real option"
  inv_moq :: "real option"
  inv_lead :: "int option"

record formula_row =
  f_id :: int
  f_product :: string
  f_material :: string
  f_usage :: real

record production_row =
  p_id :: int
  p_product :: string
  p_capacity :: real
  p_quantity :: int
  p_date :: timestamp

record transaction_row =
  t_id :: int
  t_material :: string
  t_type :: string
  t_quantity :: real
  t_date :: timestamp
  t_memo :: "string option"

text \<open>
  The database: the four tables, and for each table written by an INSERT the counter
  that SQLite keeps for an AUTOINCREMENT key (table \<open>sqlite_sequence\<close>).
\<close>

record db =
  inventory :: "inventory_row list"
  formula :: "formula_row list"
  production_history :: "production_row list"
  transactions :: "transaction_row list"
  seq_inventory :: int
  seq_production :: int
  seq_transactions :: int

definition empty_db :: db where
  "empty_db = \<lparr>inventory = [], formula = [], production_history = [], transactions = [],
     seq_inventory = 0, seq_production = 0, seq_transactions = 0\<rparr>"

text \<open>
  An AUTOINCREMENT key is one more than the largest key the table holds or has ever
  held.
\<close>

definition next_rowid :: "int \<Rightarrow> int list \<Rightarrow> int" where
  "next_rowid seq ids = fold max ids seq + 1"

text \<open>
  The two transaction types, \<open>"\<dots>"\<close> literals of the source written in Hangul: the
  UTF-8 bytes of U+C785 U+ACE0 (inbound) and of U+CD9C U+ACE0 (outbound).
\<close>

definition ipgo :: string where
  "ipgo = [CHR 0xEC, CHR 0x9E, CHR 0x85, CHR 0xEA, CHR 0xB3, CHR 0xA0]"

definition chulgo :: string where
  "chulgo = [CHR 0xEC, CHR 0xB6, CHR 0x9C, CHR 0xEA, CHR 0xB3, CHR 0xA0]"

subsection \<open>The statements on inventory\<close>

text \<open>
  \<^verbatim>\<open>UPDATE inventory SET "stock" = "stock" + ? WHERE name = ?\<close> and the same with
  \<^verbatim>\<open>- ?\<close>: every row whose name is the parameter is rewritten, every other row is
  kept, and a statement that matches no row is not an error.
\<close>

definition update_plus :: "inventory_row list \<Rightarrow> real \<Rightarrow> string \<Rightarrow> inventory_row list" where
  "update_plus rows q nm =
     map (\<lambda>r. if inv_name r = nm then r\<lparr>inv_stock := inv_stock r + q\<rparr> else r) rows"

definition update_minus :: "inventory_row list \<Rightarrow> real \<Rightarrow> string \<Rightarrow> inventory_row list" where
  "update_minus rows q nm =
     map (\<lambda>r. if inv_name r = nm then r\<lparr>inv_stock := inv_stock r - q\<rparr> else r) rows"

text \<open>
  \<^verbatim>\<open>inv_df.loc[inv_df[name] == ingredient, stock].sum()\<close>: the rows are selected by a
  boolean mask on the name column and the stock column of the selection is summed; the
  sum of an empty selection is 0.
\<close>

definition current_stock :: "inventory_row list \<Rightarrow> string \<Rightarrow> real" where
  "current_stock inv_df ingredient =
     sum_list (map inv_stock (filter (\<lambda>r. inv_name r = ingredient) inv_df))"

text \<open>The number of inventory rows that carry a name.\<close>

definition rows_named :: "inventory_row list \<Rightarrow> string \<Rightarrow> nat" where
  "rows_named rows nm = length (filter (\<lambda>r. inv_name r = nm) rows)"

text \<open>
  \<open>add_new_ingredient\<close>: one INSERT into inventory, with stock 0 and a fresh key. It
  does not look for a row of the same name.
\<close>

definition add_new_ingredient ::
  "db \<Rightarrow> string \<Rightarrow> string option \<Rightarrow> string option \<Rightarrow> real \<Rightarrow> real \<Rightarrow> int \<Rightarrow> db" where
  "add_new_ingredient d nm expiry vendor price moq lead =
     (let new_id = next_rowid (seq_inventory d) (map inv_id (inventory d)) in
      d\<lparr>inventory := inventory d @
           [\<lparr>inv_id = new_id, inv_name = nm, inv_stock = 0, inv_expiry = expiry,
             inv_vendor = vendor, inv_price = Some price, inv_moq = Some moq,
             inv_lead = Some lead\<rparr>],
        seq_inventory := new_id\<rparr>)"

subsection \<open>Recording and deleting a transaction\<close>

text \<open>
  What a function shows to the user: \<open>st.success\<close> or \<open>st.error\<close>, with the message
  (the source's messages are format strings in Korean; each is named here by what it
  says).
\<close>

datatype message =
    Msg_recorded
  | Msg_transaction_deleted int
  | Msg_transaction_id_not_found
  | Msg_history_not_found
  | Msg_no_formula string
  | Msg_history_restored int

datatype ui = St_success message | St_error message

text \<open>
  \<open>record_transaction\<close>: the INSERT into transactions, then one UPDATE of inventory,
  whose sign is chosen by comparing the type with the inbound literal (every other type
  takes the \<open>else\<close> branch), then the commit. The quantity stored in the row is
  \<open>float(num_or_zero(str(q)))\<close>, which for a number \<open>q\<close> is \<open>q\<close> again; the UPDATE
  is given \<open>q\<close> itself. No statement of the body raises on a database that has its
  tables, so the \<open>except\<close> branch is not a branch of the model.
\<close>

definition record_transaction ::
  "db \<Rightarrow> string \<Rightarrow> string \<Rightarrow> real \<Rightarrow> string \<Rightarrow> timestamp \<Rightarrow> ui \<times> db" where
  "record_transaction d nm ty q memo now =
     (let new_id = next_rowid (seq_transactions d) (map t_id (transactions d));
          txs = transactions d @
            [\<lparr>t_id = new_id, t_material = nm, t_type = ty, t_quantity = q,
              t_date = now, t_memo = Some memo\<rparr>];
          rows = (if ty = ipgo then update_plus (inventory d) q nm
                  else update_minus (inventory d) q nm)
      in (St_success Msg_recorded,
          d\<lparr>inventory := rows, transactions := txs, seq_transactions := new_id\<rparr>))"

text \<open>
  \<open>delete_transaction_and_restore_inventory\<close>: \<open>fetchone\<close> gives the first row with
  the id, or nothing; with a row, one UPDATE with the opposite sign and the DELETE of
  every row with that id; with none, only the error message.
\<close>

definition delete_transaction_and_restore_inventory :: "db \<Rightarrow> int \<Rightarrow> ui \<times> db" where
  "delete_transaction_and_restore_inventory d trans_id =
     (case find (\<lambda>t. t_id t = trans_id) (transactions d) of
        Some row \<Rightarrow>
          (let ingr = t_material row; ttype = t_type row; amt = t_quantity row;
               rows = (if ttype = ipgo then update_minus (inventory d) amt ingr
                       else update_plus (inventory d) amt ingr)
           in (St_success (Msg_transaction_deleted trans_id),
               d\<lparr>inventory := rows,
                 transactions := filter (\<lambda>t. t_id t \<noteq> trans_id) (transactions d)\<rparr>))
      | None \<Rightarrow> (St_error Msg_transaction_id_not_found, d))"

subsection \<open>Production: the formula, the calculation, the confirmation, the deletion\<close>

text \<open>\<open>get_formula_df\<close>: the (material, usage) columns of the product's formula rows.\<close>

definition get_formula_df :: "db \<Rightarrow> string \<Rightarrow> (string \<times> real) list" where
  "get_formula_df d product_name =
     map (\<lambda>f. (f_material f, f_usage f))
       (filter (\<lambda>f. f_product f = product_name) (formula d))"

text \<open>
  The session state of the calculation page, and the application as the page sees it:
  the database and the session.
\<close>

record session =
  calc_done :: bool
  used_table :: "(string \<times> real \<times> real) list"
  sufficient :: bool

record app =
  store :: db
  session_state :: session

text \<open>
  The loop of the calculation button over the formula rows: it appends (material,
  required, stock) to the table and clears the flag when the stock is below the
  requirement.
\<close>

fun calc_loop ::
  "inventory_row list \<Rightarrow> real \<Rightarrow> int \<Rightarrow> (string \<times> real) list \<Rightarrow>
   (string \<times> real \<times> real) list \<times> bool \<Rightarrow> (string \<times> real \<times> real) list \<times> bool" where
  "calc_loop inv_df unit_capacity total_quantity [] acc = acc"
| "calc_loop inv_df unit_capacity total_quantity ((ingredient, usage_per_unit) # rest) (tbl, suff) =
     (let required_qty = usage_per_unit * unit_capacity * of_int total_quantity;
          stock = current_stock inv_df ingredient
      in calc_loop inv_df unit_capacity total_quantity rest
           (tbl @ [(ingredient, required_qty, stock)],
            if stock < required_qty then False else suff))"

text \<open>
  The body of the calculation button: it reads the formula and the inventory, runs the
  loop from an empty table and a true flag, and stores the outcome in the session. (The
  page shows the button for a product taken from the formula table; the body has no
  test of its own.)
\<close>

definition calc_button :: "app \<Rightarrow> string \<Rightarrow> real \<Rightarrow> int \<Rightarrow> app" where
  "calc_button a product_name unit_capacity total_quantity =
     (let formula_df = get_formula_df (store a) product_name;
          inv_df = inventory (store a);
          res = calc_loop inv_df unit_capacity total_quantity formula_df ([], True)
      in a\<lparr>session_state :=
             \<lparr>calc_done = True, used_table = fst res, sufficient = snd res\<rparr>\<rparr>)"

text \<open>The loop of \<open>insert_production_history\<close>: one UPDATE per used material.\<close>

fun deduct_loop :: "inventory_row list \<Rightarrow> (string \<times> real) list \<Rightarrow> inventory_row list" where
  "deduct_loop rows [] = rows"
| "deduct_loop rows ((ingredient, used_qty) # rest) =
     deduct_loop (update_minus rows used_qty ingredient) rest"

text \<open>
  \<open>insert_production_history\<close>: the INSERT of the run, \<open>lastrowid\<close>, the updates, the
  commit; it returns the new id.
\<close>

definition insert_production_history ::
  "db \<Rightarrow> string \<Rightarrow> real \<Rightarrow> int \<Rightarrow> (string \<times> real) list \<Rightarrow> timestamp \<Rightarrow> int \<times> db" where
  "insert_production_history d product_name unit_capacity total_quantity used_materials now =
     (let new_id = next_rowid (seq_production d) (map p_id (production_history d));
          runs = production_history d @
            [\<lparr>p_id = new_id, p_product = product_name, p_capacity = unit_capacity,
              p_quantity = total_quantity, p_date = now\<rparr>]
      in (new_id,
          d\<lparr>inventory := deduct_loop (inventory d) used_materials,
            production_history := runs, seq_production := new_id\<rparr>))"

text \<open>The loop of the deletion over the formula rows: one UPDATE per row.\<close>

fun restore_loop ::
  "inventory_row list \<Rightarrow> real \<Rightarrow> int \<Rightarrow> (string \<times> real) list \<Rightarrow> inventory_row list" where
  "restore_loop rows unit_capacity total_qty [] = rows"
| "restore_loop rows unit_capacity total_qty ((ingr, usage_per_unit) # rest) =
     restore_loop
       (update_plus rows (usage_per_unit * unit_capacity * of_int total_qty) ingr)
       unit_capacity total_qty rest"

text \<open>
  \<open>delete_production_history_and_restore\<close>: it returns a flag and a message. Both early
  returns come before the first UPDATE.
\<close>

definition delete_production_history_and_restore ::
  "db \<Rightarrow> int \<Rightarrow> (bool \<times> message) \<times> db" where
  "delete_production_history_and_restore d hist_id =
     (case find (\<lambda>p. p_id p = hist_id) (production_history d) of
        None \<Rightarrow> ((False, Msg_history_not_found), d)
      | Some row \<Rightarrow>
          (let product_name = p_product row; unit_capacity = p_capacity row;
               total_qty = p_quantity row;
               df_formula = get_formula_df d product_name
           in if df_formula = [] then ((False, Msg_no_formula product_name), d)
              else ((True, Msg_history_restored hist_id),
                    d\<lparr>inventory :=
                        restore_loop (inventory d) unit_capacity total_qty df_formula,
                      production_history :=
                        filter (\<lambda>p. p_id p \<noteq> hist_id) (production_history d)\<rparr>)))"

subsection \<open>The words of the specification\<close>

text \<open>
  The signed delta of a transaction in the specification's words: plus the quantity for
  an inbound one, minus the quantity otherwise; and the sum of the signed deltas of the
  transaction rows of a material.
\<close>

definition signed_delta :: "string \<Rightarrow> real \<Rightarrow> real" where
  "signed_delta ty q = (if ty = ipgo then q else - q)"

definition ledger :: "transaction_row list \<Rightarrow> string \<Rightarrow> real" where
  "ledger txs nm =
     sum_list (map (\<lambda>t. signed_delta (t_type t) (t_quantity t))
       (filter (\<lambda>t. t_material t = nm) txs))"

text \<open>The total that a list of (material, amount) pairs holds for one material.\<close>

definition total_for :: "(string \<times> real) list \<Rightarrow> string \<Rightarrow> real" where
  "total_for us nm = sum_list (map snd (filter (\<lambda>u. fst u = nm) us))"


section \<open>The same functions in the arithmetic of the machine\<close>

text \<open>
  The stock column is a REAL column and every quantity is a Python float, so each
  addition, subtraction and multiplication of the program yields the 64-bit binary
  floating-point number nearest to the exact result, a tie going to the even
  significand. Where one statement undoes another, this rounding of each step decides
  what is left; the definitions of this section write it out. Numbers that are
  arguments (quantities, capacities, usages, stocks) are taken to be doubles already,
  counts to be below \<open>2 ^ 53\<close>, and no result to reach \<open>2 ^ 1024\<close> (infinities and
  NaN are not modelled).
\<close>

subsection \<open>Rounding to a double\<close>

text \<open>
  A positive real is brought to the form \<open>m * 2 ^ e\<close> with \<open>2 ^ 52 \<le> m < 2 ^ 53\<close>, or
  with the least exponent \<open>- 1074\<close> of the format and a smaller \<open>m\<close>; then \<open>m\<close> is
  rounded to the nearest integer, a tie to the even one.
\<close>

function scale_down :: "real \<Rightarrow> int \<Rightarrow> real \<times> int" where
  "scale_down m e = (if 2 ^ 53 \<le> m then scale_down (m / 2) (e + 1) else (m, e))"
  by pat_completeness auto
termination
proof (relation "measure (\<lambda>(m, e). nat \<lfloor>m\<rfloor>)")
  show "wf (measure (\<lambda>(m, e). nat \<lfloor>m\<rfloor>))" by simp
next
  fix m :: real and e :: int
  assume big: "2 ^ 53 \<le> m"
  then have "m / 2 + 1 \<le> m" by simp
  then have "\<lfloor>m / 2\<rfloor> + 1 \<le> \<lfloor>m\<rfloor>" by linarith
  moreover have "0 < \<lfloor>m\<rfloor>" using big by simp
  ultimately show "((m / 2, e + 1), (m, e)) \<in> measure (\<lambda>(m, e). nat \<lfloor>m\<rfloor>)"
    by simp
qed

function scale_up :: "real \<Rightarrow> int \<Rightarrow> real \<times> int" where
  "scale_up m e = (if m < 2 ^ 52 \<and> - 1074 < e then scale_up (2 * m) (e - 1) else (m, e))"
  by pat_completeness auto
termination
  by (relation "measure (\<lambda>(m, e). nat (e + 1074))") auto

declare scale_down.simps [simp del]

declare scale_up.simps [simp del]

definition nearest_even :: "real \<Rightarrow> int" where
  "nearest_even m =
     (let f = \<lfloor>m\<rfloor>; r = m - of_int f
      in if r < 1 / 2 then f else if 1 / 2 < r then f + 1
         else if even f then f else f + 1)"

definition round_double :: "real \<Rightarrow> real" where
  "round_double x =
     (if x = 0 then 0
      else let me = scale_down \<bar>x\<bar> 0;
               me' = scale_up (fst me) (snd me);
               k = nearest_even (fst me');
               e = snd me'
           in sgn x * (if 0 \<le> e then of_int k * 2 ^ nat e else of_int k / 2 ^ nat (- e)))"

subsection \<open>The statements and the functions\<close>

text \<open>The two UPDATE statements: SQLite adds or subtracts in doubles and stores the result.\<close>

definition update_plus_dbl :: "inventory_row list \<Rightarrow> real \<Rightarrow> string \<Rightarrow> inventory_row list" where
  "update_plus_dbl rows q nm =
     map (\<lambda>r. if inv_name r = nm then r\<lparr>inv_stock := round_double (inv_stock r + q)\<rparr> else r)
       rows"

definition update_minus_dbl :: "inventory_row list \<Rightarrow> real \<Rightarrow> string \<Rightarrow> inventory_row list" where
  "update_minus_dbl rows q nm =
     map (\<lambda>r. if inv_name r = nm then r\<lparr>inv_stock := round_double (inv_stock r - q)\<rparr> else r)
       rows"

text \<open>\<open>record_transaction\<close> and \<open>delete_transaction_and_restore_inventory\<close>.\<close>

definition record_transaction_dbl ::
  "db \<Rightarrow> string \<Rightarrow> string \<Rightarrow> real \<Rightarrow> string \<Rightarrow> timestamp \<Rightarrow> ui \<times> db" where
  "record_transaction_dbl d nm ty q memo now =
     (let new_id = next_rowid (seq_transactions d) (map t_id (transactions d));
          txs = transactions d @
            [\<lparr>t_id = new_id, t_material = nm, t_type = ty, t_quantity = q,
              t_date = now, t_memo = Some memo\<rparr>];
          rows = (if ty = ipgo then update_plus_dbl (inventory d) q nm
                  else update_minus_dbl (inventory d) q nm)
      in (St_success Msg_recorded,
          d\<lparr>inventory := rows, transactions := txs, seq_transactions := new_id\<rparr>))"

definition delete_transaction_and_restore_inventory_dbl :: "db \<Rightarrow> int \<Rightarrow> ui \<times> db" where
  "delete_transaction_and_restore_inventory_dbl d trans_id =
     (case find (\<lambda>t. t_id t = trans_id) (transactions d) of
        Some row \<Rightarrow>
          (let ingr = t_material row; ttype = t_type row; amt = t_quantity row;
               rows = (if ttype = ipgo then update_minus_dbl (inventory d) amt ingr
                       else update_plus_dbl (inventory d) amt ingr)
           in (St_success (Msg_transaction_deleted trans_id),
               d\<lparr>inventory := rows,
                 transactions := filter (\<lambda>t. t_id t \<noteq> trans_id) (transactions d)\<rparr>))
      | None \<Rightarrow> (St_error Msg_transaction_id_not_found, d))"

text \<open>
  The calculation: the requirement is two multiplications, left to right, each rounded.
  The sum of the stock column is computed by pandas; how it orders and rounds the
  additions is not in the source, so the summing function is an argument here.
\<close>

fun calc_loop_dbl ::
  "(real list \<Rightarrow> real) \<Rightarrow> inventory_row list \<Rightarrow> real \<Rightarrow> int \<Rightarrow> (string \<times> real) list \<Rightarrow>
   (string \<times> real \<times> real) list \<times> bool \<Rightarrow> (string \<times> real \<times> real) list \<times> bool" where
  "calc_loop_dbl df_sum inv_df unit_capacity total_quantity [] acc = acc"
| "calc_loop_dbl df_sum inv_df unit_capacity total_quantity ((ingredient, usage_per_unit) # rest)
     (tbl, suff) =
     (let required_qty =
            round_double (round_double (usage_per_unit * unit_capacity) * of_int total_quantity);
          stock = df_sum (map inv_stock (filter (\<lambda>r. inv_name r = ingredient) inv_df))
      in calc_loop_dbl df_sum inv_df unit_capacity total_quantity rest
           (tbl @ [(ingredient, required_qty, stock)],
            if stock < required_qty then False else suff))"

definition calc_button_dbl :: "(real list \<Rightarrow> real) \<Rightarrow> app \<Rightarrow> string \<Rightarrow> real \<Rightarrow> int \<Rightarrow> app" where
  "calc_button_dbl df_sum a product_name unit_capacity total_quantity =
     (let formula_df = get_formula_df (store a) product_name;
          inv_df = inventory (store a);
          res = calc_loop_dbl df_sum inv_df unit_capacity total_quantity formula_df ([], True)
      in a\<lparr>session_state :=
             \<lparr>calc_done = True, used_table = fst res, sufficient = snd res\<rparr>\<rparr>)"

text \<open>\<open>insert_production_history\<close> with its loop, and the confirmation button.\<close>

fun deduct_loop_dbl :: "inventory_row list \<Rightarrow> (string \<times> real) list \<Rightarrow> inventory_row list" where
  "deduct_loop_dbl rows [] = rows"
| "deduct_loop_dbl rows ((ingredient, used_qty) # rest) =
     deduct_loop_dbl (update_minus_dbl rows used_qty ingredient) rest"

definition insert_production_history_dbl ::
  "db \<Rightarrow> string \<Rightarrow> real \<Rightarrow> int \<Rightarrow> (string \<times> real) list \<Rightarrow> timestamp \<Rightarrow> int \<times> db" where
  "insert_production_history_dbl d product_name unit_capacity total_quantity used_materials now =
     (let new_id = next_rowid (seq_production d) (map p_id (production_history d));
          runs = production_history d @
            [\<lparr>p_id = new_id, p_product = product_name, p_capacity = unit_capacity,
              p_quantity = total_quantity, p_date = now\<rparr>]
      in (new_id,
          d\<lparr>inventory := deduct_loop_dbl (inventory d) used_materials,
            production_history := runs, seq_production := new_id\<rparr>))"

definition confirm_button_dbl :: "app \<Rightarrow> string \<Rightarrow> real \<Rightarrow> int \<Rightarrow> timestamp \<Rightarrow> int \<times> app" where
  "confirm_button_dbl a product_name unit_capacity total_quantity now =
     (let used_materials = map (\<lambda>x. (fst x, fst (snd x))) (used_table (session_state a));
          res = insert_production_history_dbl (store a) product_name unit_capacity
                  total_quantity used_materials now
      in (fst res,
          \<lparr>store = snd res,
           session_state = \<lparr>calc_done = False, used_table = [], sufficient = False\<rparr>\<rparr>))"

text \<open>\<open>delete_production_history_and_restore\<close> with its loop.\<close>

fun restore_loop_dbl ::
  "inventory_row list \<Rightarrow> real \<Rightarrow> int \<Rightarrow> (string \<times> real) list \<Rightarrow> inventory_row list" where
  "restore_loop_dbl rows unit_capacity total_qty [] = rows"
| "restore_loop_dbl rows unit_capacity total_qty ((ingr, usage_per_unit) # rest) =
     restore_loop_dbl
       (update_plus_dbl rows
          (round_double (round_double (usage_per_unit * unit_capacity) * of_int total_qty)) ingr)
       unit_capacity total_qty rest"

definition delete_production_history_and_restore_dbl ::
  "db \<Rightarrow> int \<Rightarrow> (bool \<times> message) \<times> db" where
  "delete_production_history_and_restore_dbl d hist_id =
     (case find (\<lambda>p. p_id p = hist_id) (production_history d) of
        None \<Rightarrow> ((False, Msg_history_not_found), d)
      | Some row \<Rightarrow>
          (let product_name = p_product row; unit_capacity = p_capacity row;
               total_qty = p_quantity row;
               df_formula = get_formula_df d product_name
           in if df_formula = [] then ((False, Msg_no_formula product_name), d)
              else ((True, Msg_history_restored hist_id),
                    d\<lparr>inventory :=
                        restore_loop_dbl (inventory d) unit_capacity total_qty df_formula,
                      production_history :=
                        filter (\<lambda>p. p_id p \<noteq> hist_id) (production_history d)\<rparr>)))"

subsection \<open>Sequences of calls, and the words of the specification\<close>

text \<open>A call of the transaction recorder, and a sequence of calls run in order.\<close>

datatype call =
    Record string string real string timestamp
  | Delete int

fun run_call_dbl :: "db \<Rightarrow> call \<Rightarrow> db" where
  "run_call_dbl d (Record nm ty q memo now) = snd (record_transaction_dbl d nm ty q memo now)"
| "run_call_dbl d (Delete trans_id) =
     snd (delete_transaction_and_restore_inventory_dbl d trans_id)"

fun run_calls_dbl :: "db \<Rightarrow> call list \<Rightarrow> db" where
  "run_calls_dbl d [] = d"
| "run_calls_dbl d (c # cs) = run_calls_dbl (run_call_dbl d c) cs"

text \<open>
  Confirming a run right after the calculation and deleting the run that the
  confirmation created: the database after the confirmation, and the outcome of the
  deletion.
\<close>

definition confirm_then_delete_dbl ::
  "(real list \<Rightarrow> real) \<Rightarrow> app \<Rightarrow> string \<Rightarrow> real \<Rightarrow> int \<Rightarrow> timestamp \<Rightarrow>
   db \<times> (bool \<times> message) \<times> db" where
  "confirm_then_delete_dbl df_sum a product_name unit_capacity total_quantity now =
     (let planned = calc_button_dbl df_sum a product_name unit_capacity total_quantity;
          confirmed = confirm_button_dbl planned product_name unit_capacity total_quantity now
      in (store (snd confirmed),
          delete_production_history_and_restore_dbl (store (snd confirmed)) (fst confirmed)))"

text \<open>
  What the specification speaks of. The requirement of each formula entry for a run;
  the amounts that a list of (material, amount) pairs holds for one material, in order.
\<close>

definition required_dbl :: "real \<Rightarrow> int \<Rightarrow> (string \<times> real) list \<Rightarrow> (string \<times> real) list" where
  "required_dbl unit_capacity total_qty df =
     map (\<lambda>e. (fst e, round_double (round_double (snd e * unit_capacity) * of_int total_qty))) df"

definition amounts_for :: "(string \<times> real) list \<Rightarrow> string \<Rightarrow> real list" where
  "amounts_for us nm = map snd (filter (\<lambda>u. fst u = nm) us)"

text \<open>
  A stock from which amounts are subtracted one after the other, or to which they are
  added one after the other, each result rounded; and the condition that no step of
  such a chain rounds, so that each result is the exact one.
\<close>

fun sub_chain :: "real \<Rightarrow> real list \<Rightarrow> real" where
  "sub_chain s [] = s"
| "sub_chain s (x # xs) = sub_chain (round_double (s - x)) xs"

fun add_chain :: "real \<Rightarrow> real list \<Rightarrow> real" where
  "add_chain s [] = s"
| "add_chain s (x # xs) = add_chain (round_double (s + x)) xs"

fun exact_sub :: "real \<Rightarrow> real list \<Rightarrow> bool" where
  "exact_sub s [] = True"
| "exact_sub s (x # xs) = (round_double (s - x) = s - x \<and> exact_sub (s - x) xs)"

fun exact_add :: "real \<Rightarrow> real list \<Rightarrow> bool" where
  "exact_add s [] = True"
| "exact_add s (x # xs) = (round_double (s + x) = s + x \<and> exact_add (s + x) xs)"

text \<open>
  The transactions table under a sequence of calls, by the words of the specification:
  a record call appends a row with a fresh id, a delete call removes the row of its id.
  And the ledger adjustments that the calls make for one material, in order: the signed
  delta of each record call for the material, and the inverse of the signed delta of
  each row of the material that a delete call finds.
\<close>

fun tx_step :: "transaction_row list \<times> int \<Rightarrow> call \<Rightarrow> transaction_row list \<times> int" where
  "tx_step (txs, seq) (Record nm ty q memo now) =
     (txs @ [\<lparr>t_id = next_rowid seq (map t_id txs), t_material = nm, t_type = ty,
              t_quantity = q, t_date = now, t_memo = Some memo\<rparr>],
      next_rowid seq (map t_id txs))"
| "tx_step (txs, seq) (Delete trans_id) = (filter (\<lambda>t. t_id t \<noteq> trans_id) txs, seq)"

fun tx_run :: "transaction_row list \<times> int \<Rightarrow> call list \<Rightarrow> transaction_row list \<times> int" where
  "tx_run st [] = st"
| "tx_run st (c # cs) = tx_run (tx_step st c) cs"

fun delta_of :: "transaction_row list \<Rightarrow> call \<Rightarrow> string \<Rightarrow> real list" where
  "delta_of txs (Record m ty q memo now) nm = (if m = nm then [signed_delta ty q] else [])"
| "delta_of txs (Delete trans_id) nm =
     (case find (\<lambda>t. t_id t = trans_id) txs of
        None \<Rightarrow> []
      | Some row \<Rightarrow>
          if t_material row = nm then [- signed_delta (t_type row) (t_quantity row)] else [])"

fun deltas :: "transaction_row list \<times> int \<Rightarrow> call list \<Rightarrow> string \<Rightarrow> real list" where
  "deltas st [] nm = []"
| "deltas st (c # cs) nm = delta_of (fst st) c nm @ deltas (tx_step st c) cs nm"

text \<open>
  The change of the ledger sum of a material between two states of the transactions
  table: the sum of the signed deltas of the rows of the later table that the earlier
  one did not have (recorded in between and still there), less the sum over the rows
  of the earlier table that the later one no longer has (deleted in between).
\<close>

definition ledger_change ::
  "transaction_row list \<Rightarrow> transaction_row list \<Rightarrow> string \<Rightarrow> real" where
  "ledger_change before after nm =
     ledger (filter (\<lambda>t. t \<notin> set before) after) nm -
     ledger (filter (\<lambda>t. t \<notin> set after) before) nm"

section \<open>Example databases\<close>

text \<open>
  The scenario of the specification: material Oil-A with 100 g in stock, a second
  material, and product Cream-X whose formula uses 0.1 of Oil-A per gram.
\<close>

definition oil_a :: inventory_row where
  "oil_a = \<lparr>inv_id = 1, inv_name = ''Oil-A'', inv_stock = 100, inv_expiry = None,
     inv_vendor = None, inv_price = None, inv_moq = None, inv_lead = None\<rparr>"

definition wax :: inventory_row where
  "wax = \<lparr>inv_id = 2, inv_name = ''Wax'', inv_stock = 20, inv_expiry = None,
     inv_vendor = None, inv_price = None, inv_moq = None, inv_lead = None\<rparr>"

definition cream_db :: db where
  "cream_db = \<lparr>inventory = [oil_a, wax],
     formula = [\<lparr>f_id = 1, f_product = ''Cream-X'', f_material = ''Oil-A'', f_usage = 1 / 10\<rparr>],
     production_history = [], transactions = [],
     seq_inventory = 2, seq_production = 0, seq_transactions = 0\<rparr>"

text \<open>
  A database reached from the empty one by adding an ingredient of the same name twice:
  inventory then holds two rows named Oil-A, with keys 1 and 2 and stock 0.
\<close>

definition two_oil_db :: db where
  "two_oil_db =
     add_new_ingredient
       (add_new_ingredient empty_db ''Oil-A'' None None 0 0 0)
       ''Oil-A'' None None 0 0 0"

text \<open>A run of a product that has no formula row (any more).\<close>

definition orphan_run_db :: db where
  "orphan_run_db = cream_db\<lparr>production_history :=
     [\<lparr>p_id = 1, p_product = ''Balm-Y'', p_capacity = 30, p_quantity = 4, p_date = 0\<rparr>],
     seq_production := 1\<rparr>"

text \<open>The scenario database after one delivery of 50 g of Oil-A has been recorded.\<close>

definition stocked_db :: db where
  "stocked_db = snd (record_transaction cream_db ''Oil-A'' ipgo 50 ''delivery'' 1)"

text \<open>Cream-X with a second formula row, for a material that has no inventory row.\<close>

definition scented_db :: db where
  "scented_db = cream_db\<lparr>formula := formula cream_db @
     [\<lparr>f_id = 2, f_product = ''Cream-X'', f_material = ''Scent'', f_usage = 1 / 100\<rparr>]\<rparr>"

definition fresh_session :: session where
  "fresh_session = \<lparr>calc_done = False, used_table = [], sufficient = False\<rparr>"

text \<open>
  Two inventory rows named Oil-A, a formula that uses Oil-A, one recorded delivery and
  one recorded run.
\<close>

definition twin_db :: db where
  "twin_db = two_oil_db\<lparr>
     formula := [\<lparr>f_id = 1, f_product = ''Cream-X'', f_material = ''Oil-A'', f_usage = 1 / 10\<rparr>],
     production_history :=
       [\<lparr>p_id = 1, p_product = ''Cream-X'', p_capacity = 50, p_quantity = 10, p_date = 2\<rparr>],
     transactions :=
       [\<lparr>t_id = 1, t_material = ''Oil-A'', t_type = ipgo, t_quantity = 50, t_date = 1,
         t_memo = None\<rparr>],
     seq_production := 1, seq_transactions := 1\<rparr>"

text \<open>
  Databases whose numbers are not whole: the stock is the double nearest to 0.9, or to
  0.1, and the formula uses the double nearest to 0.2.
\<close>

definition nine_tenths_db :: db where
  "nine_tenths_db = \<lparr>inventory =
       [\<lparr>inv_id = 1, inv_name = ''Oil-A'', inv_stock = round_double (9 / 10), inv_expiry = None,
         inv_vendor = None, inv_price = None, inv_moq = None, inv_lead = None\<rparr>],
     formula =
       [\<lparr>f_id = 1, f_product = ''Cream-X'', f_material = ''Oil-A'',
         f_usage = round_double (2 / 10)\<rparr>],
     production_history = [], transactions = [],
     seq_inventory = 1, seq_production = 0, seq_transactions = 0\<rparr>"

definition one_tenth_db :: db where
  "one_tenth_db = \<lparr>inventory =
       [\<lparr>inv_id = 1, inv_name = ''Oil-A'', inv_stock = round_double (1 / 10), inv_expiry = None,
         inv_vendor = None, inv_price = None, inv_moq = None, inv_lead = None\<rparr>],
     formula = [], production_history = [], transactions = [],
     seq_inventory = 1, seq_production = 0, seq_transactions = 0\<rparr>"

text \<open>The scenario database with the usage 0.1 as the double that the program holds.\<close>

definition whole_grams_db :: db where
  "whole_grams_db = cream_db\<lparr>formula :=
     [\<lparr>f_id = 1, f_product = ''Cream-X'', f_material = ''Oil-A'',
       f_usage = round_double (1 / 10)\<rparr>]\<rparr>"

section \<open>Properties\<close>

subsection \<open>Auxiliary facts\<close>

lemma update_minus_plus: "update_minus rows q nm = update_plus rows (- q) nm"
  by (simp add: update_minus_def update_plus_def)


lemma update_plus_Cons:
  "update_plus (r # rows) q nm =
     (if inv_name r = nm then r\<lparr>inv_stock := inv_stock r + q\<rparr> else r) # update_plus rows q nm"
  by (simp add: update_plus_def)

lemma update_plus_Nil: "update_plus [] q nm = []"
  by (simp add: update_plus_def)


lemma update_plus_absent:
  "nm \<notin> set (map inv_name rows) \<Longrightarrow> update_plus rows q nm = rows"
  by (induction rows) (auto simp: update_plus_Cons update_plus_Nil)

lemma update_plus_as_map:
  "update_plus rows q nm =
     map (\<lambda>r. r\<lparr>inv_stock := inv_stock r + (if inv_name r = nm then q else 0)\<rparr>) rows"
  by (simp add: update_plus_def)

lemma total_for_Cons:
  "total_for ((a, x) # us) nm = (if a = nm then x else 0) + total_for us nm"
  by (simp add: total_for_def)

lemma deduct_loop_as_map:
  "deduct_loop rows us =
     map (\<lambda>r. r\<lparr>inv_stock := inv_stock r - total_for us (inv_name r)\<rparr>) rows"
proof (induction us arbitrary: rows)
  case Nil
  show ?case by (simp add: total_for_def)
next
  case (Cons u us)
  obtain a x where u: "u = (a, x)" by (cases u)
  show ?case
    unfolding u deduct_loop.simps Cons.IH update_minus_plus update_plus_as_map
    by (simp add: total_for_Cons algebra_simps)
qed


lemma calc_loop_eq:
  "calc_loop inv_df c n df (tbl, suff) =
     (tbl @ map (\<lambda>e. (fst e, snd e * c * of_int n, current_stock inv_df (fst e))) df,
      suff \<and> list_all (\<lambda>e. current_stock inv_df (fst e) \<ge> snd e * c * of_int n) df)"
proof (induction df arbitrary: tbl suff)
  case Nil
  show ?case by simp
next
  case (Cons u us)
  obtain a x where u: "u = (a, x)" by (cases u)
  show ?case
    unfolding u by (simp add: Cons.IH Let_def not_less)
qed

lemma fold_max_start: "s \<le> fold max ids (s::int)"
proof (induction ids arbitrary: s)
  case Nil
  show ?case by simp
next
  case (Cons a ids)
  have "s \<le> max a s" by simp
  also have "\<dots> \<le> fold max ids (max a s)" by (rule Cons.IH)
  finally show ?case by simp
qed

lemma fold_max_ge: "x \<in> set ids \<Longrightarrow> x \<le> fold max ids (s::int)"
proof (induction ids arbitrary: s)
  case Nil
  then show ?case by simp
next
  case (Cons a ids)
  show ?case
  proof (cases "x = a")
    case True
    have "a \<le> max a s" by simp
    also have "\<dots> \<le> fold max ids (max a s)" by (rule fold_max_start)
    finally show ?thesis using True by simp
  next
    case False
    with Cons.prems have "x \<in> set ids" by simp
    from Cons.IH[OF this] show ?thesis by simp
  qed
qed

lemma next_rowid_fresh: "next_rowid s ids \<notin> set ids"
proof
  assume "next_rowid s ids \<in> set ids"
  from fold_max_ge[OF this, of s] show False by (simp add: next_rowid_def)
qed


lemma current_stock_shift_map:
  "current_stock (map (\<lambda>r. r\<lparr>inv_stock := inv_stock r + g (inv_name r)\<rparr>) rows) nm =
     current_stock rows nm + of_nat (rows_named rows nm) * g nm"
  unfolding current_stock_def rows_named_def
  by (induction rows) (auto simp: algebra_simps)

lemma find_fresh_last:
  "i \<notin> set (map key xs) \<Longrightarrow> key y = i \<Longrightarrow> find (\<lambda>p. key p = i) (xs @ [y]) = Some y"
  by (induction xs) auto

lemma find_None_absent:
  "i \<notin> set (map key xs) \<Longrightarrow> find (\<lambda>p. key p = i) xs = None"
  by (induction xs) auto

lemma ledger_append:
  "ledger (txs @ [t]) nm =
     ledger txs nm + (if t_material t = nm then signed_delta (t_type t) (t_quantity t) else 0)"
  by (simp add: ledger_def)

lemma filter_absent_key:
  "i \<notin> set (map key xs) \<Longrightarrow> filter (\<lambda>t. key t \<noteq> i) xs = xs"
  by (induction xs) auto

lemma ledger_delete:
  "distinct (map t_id txs) \<Longrightarrow> find (\<lambda>t. t_id t = i) txs = Some row \<Longrightarrow>
   ledger (filter (\<lambda>t. t_id t \<noteq> i) txs) nm =
     ledger txs nm - (if t_material row = nm then signed_delta (t_type row) (t_quantity row) else 0)"
proof (induction txs)
  case Nil
  then show ?case by simp
next
  case (Cons t txs)
  show ?case
  proof (cases "t_id t = i")
    case True
    with Cons.prems have row: "row = t" and "i \<notin> set (map t_id txs)" by auto
    then have "filter (\<lambda>t. t_id t \<noteq> i) txs = txs" by (simp add: filter_absent_key)
    with True row show ?thesis by (simp add: ledger_def)
  next
    case False
    with Cons.prems have "distinct (map t_id txs)" and "find (\<lambda>t. t_id t = i) txs = Some row"
      by auto
    from Cons.IH[OF this] False show ?thesis by (simp add: ledger_def)
  qed
qed

lemma current_stock_absent:
  "nm \<notin> set (map inv_name rows) \<Longrightarrow> current_stock rows nm = 0"
  unfolding current_stock_def by (induction rows) auto

lemma signed_delta_literals: "signed_delta ipgo q = q" "signed_delta chulgo q = - q"
  by (simp_all add: signed_delta_def ipgo_def chulgo_def)

lemma record_inventory_shift:
  "inventory (snd (record_transaction d nm ty q memo now)) =
     map (\<lambda>r. r\<lparr>inv_stock := inv_stock r +
            (if inv_name r = nm then signed_delta ty q else 0)\<rparr>) (inventory d)"
  by (simp add: record_transaction_def Let_def update_minus_plus update_plus_as_map
      signed_delta_def)

lemma delete_inventory_shift:
  "find (\<lambda>t. t_id t = trans_id) (transactions d) = Some row \<Longrightarrow>
   inventory (snd (delete_transaction_and_restore_inventory d trans_id)) =
     map (\<lambda>r. r\<lparr>inv_stock := inv_stock r +
            (if inv_name r = t_material row
             then - signed_delta (t_type row) (t_quantity row) else 0)\<rparr>) (inventory d)"
  by (simp add: delete_transaction_and_restore_inventory_def Let_def update_minus_plus
      update_plus_as_map signed_delta_def)

lemma insert_inventory_shift:
  "inventory (snd (insert_production_history d p c n us now)) =
     map (\<lambda>r. r\<lparr>inv_stock := inv_stock r + - total_for us (inv_name r)\<rparr>) (inventory d)"
  by (simp add: insert_production_history_def Let_def deduct_loop_as_map)


lemma calc_button_table:
  "used_table (session_state (calc_button a p c n)) =
     map (\<lambda>e. (fst e, snd e * c * of_int n, current_stock (inventory (store a)) (fst e)))
       (get_formula_df (store a) p)"
  by (simp add: calc_button_def Let_def calc_loop_eq)

lemma calc_button_sufficient:
  "sufficient (session_state (calc_button a p c n)) =
     list_all (\<lambda>e. snd e * c * of_int n \<le> current_stock (inventory (store a)) (fst e))
       (get_formula_df (store a) p)"
  by (simp add: calc_button_def Let_def calc_loop_eq)

lemma get_formula_df_cong:
  "formula d' = formula d \<Longrightarrow> get_formula_df d' p = get_formula_df d p"
  by (simp add: get_formula_df_def)

lemma current_stock_shift_if:
  "current_stock (map (\<lambda>r. r\<lparr>inv_stock := inv_stock r + (if inv_name r = m then x else 0)\<rparr>) rows) nm =
     current_stock rows nm + of_nat (rows_named rows nm) * (if nm = m then x else 0)"
  using current_stock_shift_map [where g = "\<lambda>k. if k = m then x else 0"] by simp

lemma record_transactions:
  "transactions (snd (record_transaction d nm ty q memo now)) =
     transactions d @
       [\<lparr>t_id = next_rowid (seq_transactions d) (map t_id (transactions d)),
         t_material = nm, t_type = ty, t_quantity = q, t_date = now, t_memo = Some memo\<rparr>]"
  by (simp add: record_transaction_def Let_def)

lemma delete_transactions:
  "transactions (snd (delete_transaction_and_restore_inventory d trans_id)) =
     filter (\<lambda>t. t_id t \<noteq> trans_id) (transactions d)"
proof (cases "find (\<lambda>t. t_id t = trans_id) (transactions d)")
  case None
  then have "trans_id \<notin> set (map t_id (transactions d))"
    by (auto simp: find_None_iff)
  then have "filter (\<lambda>t. t_id t \<noteq> trans_id) (transactions d) = transactions d"
    by (rule filter_absent_key)
  with None show ?thesis
    by (simp add: delete_transaction_and_restore_inventory_def)
next
  case (Some row)
  then show ?thesis
    by (simp add: delete_transaction_and_restore_inventory_def Let_def)
qed

lemma below_zero_after_deduction:
  fixes s t :: real
  assumes "1 \<le> k" and "0 \<le> t" and "s < t"
  shows "s - of_nat k * t < 0"
proof -
  have "(1::real) \<le> of_nat k" using assms(1) by simp
  then have "1 * t \<le> of_nat k * t" using assms(2) by (rule mult_right_mono)
  with assms(3) show ?thesis by simp
qed

subsection \<open>The stock of a material\<close>

text \<open>
  Claim C8. For every material name, the current stock is the sum of the stock
  quantities of all inventory rows whose name equals that name (a name may be carried
  by several rows), and it is 0 when no row carries the name.
\<close>

theorem current_stock_sums_matching_rows:
  "current_stock inv_df nm =
     (\<Sum>i<length inv_df. if inv_name (inv_df ! i) = nm then inv_stock (inv_df ! i) else 0)
   \<and> (nm \<notin> set (map inv_name inv_df) \<longrightarrow> current_stock inv_df nm = 0)"
proof
  have "current_stock inv_df nm =
        sum_list (map (\<lambda>r. if inv_name r = nm then inv_stock r else 0) inv_df)"
    unfolding current_stock_def by (rule sum_list_map_filter')
  also have "\<dots> = (\<Sum>i<length inv_df. if inv_name (inv_df ! i) = nm then inv_stock (inv_df ! i) else 0)"
    by (simp add: sum_list_sum_nth atLeast0LessThan)
  finally show "current_stock inv_df nm =
     (\<Sum>i<length inv_df. if inv_name (inv_df ! i) = nm then inv_stock (inv_df ! i) else 0)" .
next
  show "nm \<notin> set (map inv_name inv_df) \<longrightarrow> current_stock inv_df nm = 0"
    unfolding current_stock_def by (induction inv_df) auto
qed

theorem current_stock_sums_matching_rows_witness:
  "current_stock (inventory two_oil_db @ [oil_a, wax]) ''Oil-A'' = 0 + 0 + 100
   \<and> ''Balm'' \<notin> set (map inv_name (inventory two_oil_db @ [oil_a, wax]))
   \<and> current_stock (inventory two_oil_db @ [oil_a, wax]) ''Balm'' = 0"
  using current_stock_sums_matching_rows [of "inventory two_oil_db @ [oil_a, wax]" "''Oil-A''"]
    current_stock_sums_matching_rows [of "inventory two_oil_db @ [oil_a, wax]" "''Balm''"]
  by (simp add: two_oil_db_def add_new_ingredient_def empty_db_def next_rowid_def oil_a_def
      wax_def Let_def lessThan_Suc numeral_eq_Suc)

subsection \<open>Recording a transaction\<close>

text \<open>
  Claim C3. For every material name, transaction type, quantity and memo, recording
  appends one transaction row that carries the name, the type, that quantity, the
  timestamp of the call and the memo, and it changes the stock of each inventory row of
  that name by the signed delta, which is plus the quantity for the inbound type and
  minus the quantity for the outbound type; every other inventory row is kept.
\<close>

theorem record_transaction_effect:
  "transactions (snd (record_transaction d nm ty q memo now)) =
     transactions d @
       [\<lparr>t_id = next_rowid (seq_transactions d) (map t_id (transactions d)),
         t_material = nm, t_type = ty, t_quantity = q, t_date = now, t_memo = Some memo\<rparr>]
   \<and> length (inventory (snd (record_transaction d nm ty q memo now))) = length (inventory d)
   \<and> (\<forall>i < length (inventory d).
        inventory (snd (record_transaction d nm ty q memo now)) ! i =
          (if inv_name (inventory d ! i) = nm
           then (inventory d ! i)\<lparr>inv_stock := inv_stock (inventory d ! i) + signed_delta ty q\<rparr>
           else inventory d ! i))
   \<and> signed_delta ipgo q = q \<and> signed_delta chulgo q = - q"
  by (simp add: record_inventory_shift record_transactions signed_delta_literals)

theorem record_transaction_effect_witness:
  "transactions (snd (record_transaction cream_db ''Oil-A'' chulgo 30 ''spill'' 5)) =
     [\<lparr>t_id = 1, t_material = ''Oil-A'', t_type = chulgo, t_quantity = 30, t_date = 5,
       t_memo = Some ''spill''\<rparr>]
   \<and> inventory (snd (record_transaction cream_db ''Oil-A'' chulgo 30 ''spill'' 5)) ! 0 =
       oil_a\<lparr>inv_stock := 70\<rparr>
   \<and> inventory (snd (record_transaction cream_db ''Oil-A'' chulgo 30 ''spill'' 5)) ! 1 = wax"
  using record_transaction_effect [of cream_db "''Oil-A''" chulgo 30 "''spill''" 5]
  by (simp add: cream_db_def oil_a_def wax_def next_rowid_def)

text \<open>
  Claim C9. For every call of the recorder with a material name that no inventory row
  carries, the call succeeds and the transaction row is appended all the same, and the
  inventory table is left as it was, since the update matches no row.
\<close>

theorem record_unknown_material:
  "nm \<notin> set (map inv_name (inventory d)) \<Longrightarrow>
     fst (record_transaction d nm ty q memo now) = St_success Msg_recorded
   \<and> transactions (snd (record_transaction d nm ty q memo now)) =
       transactions d @
         [\<lparr>t_id = next_rowid (seq_transactions d) (map t_id (transactions d)),
           t_material = nm, t_type = ty, t_quantity = q, t_date = now, t_memo = Some memo\<rparr>]
   \<and> inventory (snd (record_transaction d nm ty q memo now)) = inventory d"
  by (simp add: record_transaction_def Let_def update_minus_plus update_plus_absent)

theorem record_unknown_material_witness:
  "''Scent'' \<notin> set (map inv_name (inventory cream_db))
   \<and> fst (record_transaction cream_db ''Scent'' ipgo 5 ''sample'' 8) = St_success Msg_recorded
   \<and> transactions (snd (record_transaction cream_db ''Scent'' ipgo 5 ''sample'' 8)) =
       [\<lparr>t_id = 1, t_material = ''Scent'', t_type = ipgo, t_quantity = 5, t_date = 8,
         t_memo = Some ''sample''\<rparr>]
   \<and> inventory (snd (record_transaction cream_db ''Scent'' ipgo 5 ''sample'' 8)) = [oil_a, wax]"
proof -
  have absent: "''Scent'' \<notin> set (map inv_name (inventory cream_db))"
    by (simp add: cream_db_def oil_a_def wax_def)
  show ?thesis
    using absent record_unknown_material [OF absent, of ipgo 5 "''sample''" 8]
    by (simp add: cream_db_def next_rowid_def)
qed

subsection \<open>Deleting a transaction\<close>

text \<open>
  Claim C4. For every transaction id: if a transaction row has the id, deleting it
  succeeds, changes the stock of each inventory row of the transaction's material by the
  inverse of the signed delta (minus the quantity for an inbound row, plus the quantity
  for an outbound one) and removes the row with that id; if no row has the id, the call
  reports that the id was not found and leaves the whole database, every stock and
  every transaction row, as it was.
\<close>

theorem delete_transaction_effect:
  "(find (\<lambda>t. t_id t = trans_id) (transactions d) = Some row \<longrightarrow>
      fst (delete_transaction_and_restore_inventory d trans_id) =
        St_success (Msg_transaction_deleted trans_id)
    \<and> transactions (snd (delete_transaction_and_restore_inventory d trans_id)) =
        filter (\<lambda>t. t_id t \<noteq> trans_id) (transactions d)
    \<and> length (inventory (snd (delete_transaction_and_restore_inventory d trans_id))) =
        length (inventory d)
    \<and> (\<forall>i < length (inventory d).
         inventory (snd (delete_transaction_and_restore_inventory d trans_id)) ! i =
           (if inv_name (inventory d ! i) = t_material row
            then (inventory d ! i)\<lparr>inv_stock := inv_stock (inventory d ! i) -
                   signed_delta (t_type row) (t_quantity row)\<rparr>
            else inventory d ! i)))
   \<and> (trans_id \<notin> set (map t_id (transactions d)) \<longrightarrow>
        delete_transaction_and_restore_inventory d trans_id =
          (St_error Msg_transaction_id_not_found, d))"
proof (intro conjI impI)
  assume found: "find (\<lambda>t. t_id t = trans_id) (transactions d) = Some row"
  then show "fst (delete_transaction_and_restore_inventory d trans_id) =
      St_success (Msg_transaction_deleted trans_id)"
    by (simp add: delete_transaction_and_restore_inventory_def Let_def)
  show "transactions (snd (delete_transaction_and_restore_inventory d trans_id)) =
      filter (\<lambda>t. t_id t \<noteq> trans_id) (transactions d)"
    by (rule delete_transactions)
  show "length (inventory (snd (delete_transaction_and_restore_inventory d trans_id))) =
      length (inventory d)"
    by (simp add: delete_inventory_shift [OF found])
  show "\<forall>i < length (inventory d).
         inventory (snd (delete_transaction_and_restore_inventory d trans_id)) ! i =
           (if inv_name (inventory d ! i) = t_material row
            then (inventory d ! i)\<lparr>inv_stock := inv_stock (inventory d ! i) -
                   signed_delta (t_type row) (t_quantity row)\<rparr>
            else inventory d ! i)"
    by (simp add: delete_inventory_shift [OF found])
next
  assume "trans_id \<notin> set (map t_id (transactions d))"
  then show "delete_transaction_and_restore_inventory d trans_id =
      (St_error Msg_transaction_id_not_found, d)"
    by (simp add: delete_transaction_and_restore_inventory_def find_None_absent)
qed

theorem delete_transaction_effect_witness:
  "find (\<lambda>t. t_id t = 1) (transactions stocked_db) =
     Some \<lparr>t_id = 1, t_material = ''Oil-A'', t_type = ipgo, t_quantity = 50, t_date = 1,
           t_memo = Some ''delivery''\<rparr>
   \<and> inventory stocked_db = [oil_a\<lparr>inv_stock := 150\<rparr>, wax]
   \<and> fst (delete_transaction_and_restore_inventory stocked_db 1) =
       St_success (Msg_transaction_deleted 1)
   \<and> transactions (snd (delete_transaction_and_restore_inventory stocked_db 1)) = []
   \<and> inventory (snd (delete_transaction_and_restore_inventory stocked_db 1)) ! 0 = oil_a
   \<and> inventory (snd (delete_transaction_and_restore_inventory stocked_db 1)) ! 1 = wax
   \<and> 7 \<notin> set (map t_id (transactions stocked_db))
   \<and> delete_transaction_and_restore_inventory stocked_db 7 =
       (St_error Msg_transaction_id_not_found, stocked_db)"
proof -
  have tx: "transactions stocked_db =
     [\<lparr>t_id = 1, t_material = ''Oil-A'', t_type = ipgo, t_quantity = 50, t_date = 1,
       t_memo = Some ''delivery''\<rparr>]"
    by (simp add: stocked_db_def record_transactions cream_db_def next_rowid_def)
  have inv: "inventory stocked_db = [oil_a\<lparr>inv_stock := 150\<rparr>, wax]"
    by (simp add: stocked_db_def record_inventory_shift cream_db_def oil_a_def wax_def
        signed_delta_def)
  show ?thesis
    using delete_transaction_effect [of 1 stocked_db
        "\<lparr>t_id = 1, t_material = ''Oil-A'', t_type = ipgo, t_quantity = 50, t_date = 1,
          t_memo = Some ''delivery''\<rparr>"]
      delete_transaction_effect [of 7 stocked_db]
    by (simp add: tx inv oil_a_def wax_def signed_delta_def)
qed

subsection \<open>The feasibility calculation\<close>

text \<open>
  Claim C5. For every product name, unit capacity and unit count, the calculation
  leaves the database as it is and stores in the session, for each (material, usage)
  entry of the product's formula in order, the material with required = usage * unit
  capacity * unit count and available = the current stock of the material, together
  with the flag sufficient, which is the conjunction over all entries of required
  \<open>\<le>\<close> available; an entry whose material has no inventory row is listed with
  available = 0.
\<close>

theorem calc_button_result:
  "store (calc_button a p c n) = store a
   \<and> used_table (session_state (calc_button a p c n)) =
       map (\<lambda>e. (fst e, snd e * c * of_int n, current_stock (inventory (store a)) (fst e)))
         (get_formula_df (store a) p)
   \<and> sufficient (session_state (calc_button a p c n)) =
       list_all (\<lambda>x. fst (snd x) \<le> snd (snd x))
         (used_table (session_state (calc_button a p c n)))
   \<and> (\<forall>e \<in> set (get_formula_df (store a) p).
        fst e \<notin> set (map inv_name (inventory (store a))) \<longrightarrow>
        (fst e, snd e * c * of_int n, 0) \<in> set (used_table (session_state (calc_button a p c n))))"
proof (intro conjI)
  show "store (calc_button a p c n) = store a"
    by (simp add: calc_button_def Let_def)
  show "used_table (session_state (calc_button a p c n)) =
       map (\<lambda>e. (fst e, snd e * c * of_int n, current_stock (inventory (store a)) (fst e)))
         (get_formula_df (store a) p)"
    by (rule calc_button_table)
  show "sufficient (session_state (calc_button a p c n)) =
       list_all (\<lambda>x. fst (snd x) \<le> snd (snd x))
         (used_table (session_state (calc_button a p c n)))"
    unfolding calc_button_table calc_button_sufficient
    by (simp add: list_all_iff)
  show "\<forall>e \<in> set (get_formula_df (store a) p).
        fst e \<notin> set (map inv_name (inventory (store a))) \<longrightarrow>
        (fst e, snd e * c * of_int n, 0) \<in> set (used_table (session_state (calc_button a p c n)))"
  proof (intro ballI impI)
    fix e
    assume e: "e \<in> set (get_formula_df (store a) p)"
      and absent: "fst e \<notin> set (map inv_name (inventory (store a)))"
    have "current_stock (inventory (store a)) (fst e) = 0"
      using absent by (rule current_stock_absent)
    then have "(fst e, snd e * c * of_int n, 0) =
      (\<lambda>e. (fst e, snd e * c * of_int n, current_stock (inventory (store a)) (fst e))) e"
      by simp
    also have "\<dots> \<in> set (used_table (session_state (calc_button a p c n)))"
      unfolding calc_button_table set_map using e by (rule imageI)
    finally show "(fst e, snd e * c * of_int n, 0) \<in>
      set (used_table (session_state (calc_button a p c n)))" .
  qed
qed

theorem calc_button_result_witness:
  "get_formula_df scented_db ''Cream-X'' = [(''Oil-A'', 1 / 10), (''Scent'', 1 / 100)]
   \<and> ''Scent'' \<notin> set (map inv_name (inventory scented_db))
   \<and> store (calc_button \<lparr>store = scented_db, session_state = fresh_session\<rparr> ''Cream-X'' 50 10) =
       scented_db
   \<and> used_table (session_state
         (calc_button \<lparr>store = scented_db, session_state = fresh_session\<rparr> ''Cream-X'' 50 10)) =
       [(''Oil-A'', 50, 100), (''Scent'', 5, 0)]
   \<and> sufficient (session_state
         (calc_button \<lparr>store = scented_db, session_state = fresh_session\<rparr> ''Cream-X'' 50 10)) =
       False
   \<and> (''Scent'', 5, 0) \<in> set (used_table (session_state
         (calc_button \<lparr>store = scented_db, session_state = fresh_session\<rparr> ''Cream-X'' 50 10)))
   \<and> used_table (session_state
         (calc_button \<lparr>store = cream_db, session_state = fresh_session\<rparr> ''Cream-X'' 50 10)) =
       [(''Oil-A'', 50, 100)]
   \<and> sufficient (session_state
         (calc_button \<lparr>store = cream_db, session_state = fresh_session\<rparr> ''Cream-X'' 50 10)) =
       True"
proof -
  have df: "get_formula_df scented_db ''Cream-X'' = [(''Oil-A'', 1 / 10), (''Scent'', 1 / 100)]"
    by (simp add: get_formula_df_def scented_db_def cream_db_def)
  have df': "get_formula_df cream_db ''Cream-X'' = [(''Oil-A'', 1 / 10)]"
    by (simp add: get_formula_df_def cream_db_def)
  have inv: "inventory scented_db = [oil_a, wax]" "inventory cream_db = [oil_a, wax]"
    by (simp_all add: scented_db_def cream_db_def)
  have stock: "current_stock [oil_a, wax] ''Oil-A'' = 100" "current_stock [oil_a, wax] ''Scent'' = 0"
    by (simp_all add: current_stock_def oil_a_def wax_def)
  have names: "inv_name oil_a = ''Oil-A''" "inv_name wax = ''Wax''"
    by (simp_all add: oil_a_def wax_def)
  show ?thesis
    using calc_button_result [of "\<lparr>store = scented_db, session_state = fresh_session\<rparr>" "''Cream-X''" 50 10]
      calc_button_result [of "\<lparr>store = cream_db, session_state = fresh_session\<rparr>" "''Cream-X''" 50 10]
    by (simp add: df df' inv stock names)
qed

subsection \<open>Deleting a production run\<close>

text \<open>
  Claim C6. For every production-run id whose run names a product that has no formula
  row (any more), deleting the run returns failure with the message that there is no
  formula for the product, and the database is left as it was: the run row is still
  there and no stock has changed.
\<close>

theorem delete_production_without_formula:
  "find (\<lambda>p. p_id p = hist_id) (production_history d) = Some run \<Longrightarrow>
   get_formula_df d (p_product run) = [] \<Longrightarrow>
   delete_production_history_and_restore d hist_id =
     ((False, Msg_no_formula (p_product run)), d)"
  by (simp add: delete_production_history_and_restore_def Let_def)

theorem delete_production_without_formula_witness:
  "find (\<lambda>p. p_id p = 1) (production_history orphan_run_db) =
     Some \<lparr>p_id = 1, p_product = ''Balm-Y'', p_capacity = 30, p_quantity = 4, p_date = 0\<rparr>
   \<and> get_formula_df orphan_run_db ''Balm-Y'' = []
   \<and> delete_production_history_and_restore orphan_run_db 1 =
       ((False, Msg_no_formula ''Balm-Y''), orphan_run_db)"
proof -
  have run: "find (\<lambda>p. p_id p = 1) (production_history orphan_run_db) =
     Some \<lparr>p_id = 1, p_product = ''Balm-Y'', p_capacity = 30, p_quantity = 4, p_date = 0\<rparr>"
    by (simp add: orphan_run_db_def)
  have df: "get_formula_df orphan_run_db
      (p_product \<lparr>p_id = 1, p_product = ''Balm-Y'', p_capacity = 30, p_quantity = 4, p_date = 0\<rparr>) = []"
    by (simp add: get_formula_df_def orphan_run_db_def cream_db_def)
  show ?thesis
    using run df delete_production_without_formula [OF run df] by simp
qed

subsection \<open>Deductions have no floor\<close>

text \<open>
  Claim C7. For every inventory row and every deduction, an outbound transaction on the
  row's material or a production confirmation, the amount is subtracted from the row's
  stock whatever the stock is: the call succeeds, the new stock is the old stock minus
  the amount deducted (for a confirmation, the total of the amounts listed for the row's
  material), with no clamp at zero, and it is negative when the amount exceeds the
  stock. The same holds of the summed stock of a name that has at least one row, for a
  deducted amount that is not negative.
\<close>

theorem deduction_has_no_floor:
  "i < length (inventory d) \<Longrightarrow>
   (inv_name (inventory d ! i) = nm \<longrightarrow>
      fst (record_transaction d nm chulgo q memo now) = St_success Msg_recorded
    \<and> inv_stock (inventory (snd (record_transaction d nm chulgo q memo now)) ! i) =
        inv_stock (inventory d ! i) - q
    \<and> (inv_stock (inventory d ! i) < q \<longrightarrow>
        inv_stock (inventory (snd (record_transaction d nm chulgo q memo now)) ! i) < 0)
    \<and> (0 \<le> q \<longrightarrow> current_stock (inventory d) nm < q \<longrightarrow>
        current_stock (inventory (snd (record_transaction d nm chulgo q memo now))) nm < 0)
    \<and> (0 \<le> total_for us nm \<longrightarrow> current_stock (inventory d) nm < total_for us nm \<longrightarrow>
        current_stock (inventory (snd (insert_production_history d p c n us now))) nm < 0))
   \<and> inv_stock (inventory (snd (insert_production_history d p c n us now)) ! i) =
       inv_stock (inventory d ! i) - total_for us (inv_name (inventory d ! i))
   \<and> (inv_stock (inventory d ! i) < total_for us (inv_name (inventory d ! i)) \<longrightarrow>
       inv_stock (inventory (snd (insert_production_history d p c n us now)) ! i) < 0)"
proof -
  assume i: "i < length (inventory d)"
  have rec: "inv_stock (inventory (snd (record_transaction d nm chulgo q memo now)) ! i) =
      inv_stock (inventory d ! i) + (if inv_name (inventory d ! i) = nm then - q else 0)"
    unfolding record_inventory_shift using i by (simp add: signed_delta_literals)
  have ok: "fst (record_transaction d nm chulgo q memo now) = St_success Msg_recorded"
    by (simp add: record_transaction_def Let_def)
  have ins: "inv_stock (inventory (snd (insert_production_history d p c n us now)) ! i) =
      inv_stock (inventory d ! i) - total_for us (inv_name (inventory d ! i))"
    unfolding insert_inventory_shift using i by simp
  have rec_sum: "current_stock (inventory (snd (record_transaction d nm chulgo q memo now))) nm =
      current_stock (inventory d) nm - of_nat (rows_named (inventory d) nm) * q"
    unfolding record_inventory_shift current_stock_shift_if
    by (simp add: signed_delta_literals)
  have ins_sum: "current_stock (inventory (snd (insert_production_history d p c n us now))) nm =
      current_stock (inventory d) nm - of_nat (rows_named (inventory d) nm) * total_for us nm"
    using current_stock_shift_map [where g = "\<lambda>k. - total_for us k"]
    unfolding insert_inventory_shift by simp
  have k: "1 \<le> rows_named (inventory d) nm" if "inv_name (inventory d ! i) = nm"
  proof -
    have "inventory d ! i \<in> set (filter (\<lambda>r. inv_name r = nm) (inventory d))"
      using i that by simp
    then have "filter (\<lambda>r. inv_name r = nm) (inventory d) \<noteq> []"
      by (metis empty_iff empty_set)
    then show ?thesis by (simp add: rows_named_def Suc_le_eq)
  qed
  have rec_neg: "current_stock (inventory (snd (record_transaction d nm chulgo q memo now))) nm < 0"
    if "inv_name (inventory d ! i) = nm" and "0 \<le> q" and "current_stock (inventory d) nm < q"
    unfolding rec_sum using k [OF that(1)] that(2) that(3)
    by (rule below_zero_after_deduction)
  have ins_neg: "current_stock (inventory (snd (insert_production_history d p c n us now))) nm < 0"
    if "inv_name (inventory d ! i) = nm" and "0 \<le> total_for us nm"
      and "current_stock (inventory d) nm < total_for us nm"
    unfolding ins_sum using k [OF that(1)] that(2) that(3)
    by (rule below_zero_after_deduction)
  show ?thesis
    using rec ok ins rec_neg ins_neg by simp
qed

theorem deduction_has_no_floor_witness:
  "(0::nat) < length (inventory cream_db)
   \<and> inv_name (inventory cream_db ! 0) = ''Oil-A''
   \<and> inv_stock (inventory cream_db ! 0) = 100
   \<and> current_stock (inventory cream_db) ''Oil-A'' = 100
   \<and> fst (record_transaction cream_db ''Oil-A'' chulgo 130 ''export'' 4) =
       St_success Msg_recorded
   \<and> inv_stock (inventory (snd (record_transaction cream_db ''Oil-A'' chulgo 130 ''export'' 4)) ! 0) =
       - 30
   \<and> current_stock (inventory (snd (record_transaction cream_db ''Oil-A'' chulgo 130 ''export'' 4)))
       ''Oil-A'' < 0
   \<and> total_for [(''Oil-A'', 150)] ''Oil-A'' = 150
   \<and> inv_stock (inventory (snd (insert_production_history cream_db ''Cream-X'' 50 30
         [(''Oil-A'', 150)] 4)) ! 0) = - 50
   \<and> current_stock (inventory (snd (insert_production_history cream_db ''Cream-X'' 50 30
         [(''Oil-A'', 150)] 4))) ''Oil-A'' < 0"
proof -
  have i: "(0::nat) < length (inventory cream_db)" by (simp add: cream_db_def)
  have row: "inventory cream_db ! 0 = oil_a" by (simp add: cream_db_def)
  have s: "current_stock (inventory cream_db) ''Oil-A'' = 100"
    by (simp add: cream_db_def current_stock_def oil_a_def wax_def)
  show ?thesis
    using i deduction_has_no_floor [OF i, of "''Oil-A''" 130 "''export''" 4
        "[(''Oil-A'', 150)]" "''Cream-X''" 50 30]
    by (simp add: row s oil_a_def total_for_def)
qed

subsection \<open>Several rows of one name\<close>



subsection \<open>Auxiliary facts on the arithmetic of the machine\<close>

lemma amounts_for_Cons:
  "amounts_for ((a, x) # us) nm = (if a = nm then x # amounts_for us nm else amounts_for us nm)"
  by (simp add: amounts_for_def)

lemma deduct_loop_dbl_as_map:
  "deduct_loop_dbl rows us =
     map (\<lambda>r. r\<lparr>inv_stock := sub_chain (inv_stock r) (amounts_for us (inv_name r))\<rparr>) rows"
proof (induction us arbitrary: rows)
  case Nil
  show ?case by (simp add: amounts_for_def)
next
  case (Cons u us)
  obtain a x where u: "u = (a, x)" by (cases u)
  show ?case
    unfolding u deduct_loop_dbl.simps Cons.IH update_minus_dbl_def
    by (simp add: amounts_for_Cons)
qed

lemma restore_loop_dbl_as_map:
  "restore_loop_dbl rows c n df =
     map (\<lambda>r. r\<lparr>inv_stock :=
            add_chain (inv_stock r) (amounts_for (required_dbl c n df) (inv_name r))\<rparr>) rows"
proof (induction df arbitrary: rows)
  case Nil
  show ?case by (simp add: amounts_for_def required_dbl_def)
next
  case (Cons u us)
  obtain a x where u: "u = (a, x)" by (cases u)
  have req: "required_dbl c n ((a, x) # us) =
      (a, round_double (round_double (x * c) * of_int n)) # required_dbl c n us"
    by (simp add: required_dbl_def)
  show ?case
    unfolding u restore_loop_dbl.simps Cons.IH update_plus_dbl_def req
    by (simp add: amounts_for_Cons)
qed

lemma calc_loop_dbl_table:
  "map (\<lambda>x. (fst x, fst (snd x))) (fst (calc_loop_dbl df_sum inv_df c n df (tbl, suff))) =
     map (\<lambda>x. (fst x, fst (snd x))) tbl @ required_dbl c n df"
proof (induction df arbitrary: tbl suff)
  case Nil
  show ?case by (simp add: required_dbl_def)
next
  case (Cons u us)
  obtain a x where u: "u = (a, x)" by (cases u)
  show ?case
    unfolding u by (simp add: Cons.IH Let_def required_dbl_def)
qed

lemma used_materials_of_calc_dbl:
  "map (\<lambda>x. (fst x, fst (snd x)))
       (used_table (session_state (calc_button_dbl df_sum a p c n))) =
     required_dbl c n (get_formula_df (store a) p)"
  by (simp add: calc_button_dbl_def Let_def calc_loop_dbl_table)

lemma exact_sub_chain: "exact_sub s xs \<Longrightarrow> sub_chain s xs = s - sum_list xs"
  by (induction s xs rule: exact_sub.induct) simp_all

lemma exact_add_chain: "exact_add s xs \<Longrightarrow> add_chain s xs = s + sum_list xs"
  by (induction s xs rule: exact_add.induct) simp_all

lemma confirm_then_delete_dbl_unfold:
  "confirm_then_delete_dbl df_sum a p c n now =
     (let d = store a;
          new = next_rowid (seq_production d) (map p_id (production_history d));
          d2 = d\<lparr>inventory := deduct_loop_dbl (inventory d)
                    (required_dbl c n (get_formula_df d p)),
                 production_history := production_history d @
                   [\<lparr>p_id = new, p_product = p, p_capacity = c, p_quantity = n, p_date = now\<rparr>],
                 seq_production := new\<rparr>
      in (d2,
          if get_formula_df d p = [] then ((False, Msg_no_formula p), d2)
          else ((True, Msg_history_restored new),
                d2\<lparr>inventory := restore_loop_dbl (inventory d2) c n (get_formula_df d p),
                   production_history := production_history d\<rparr>)))"
proof -
  let ?d = "store a"
  let ?df = "get_formula_df ?d p"
  let ?new = "next_rowid (seq_production ?d) (map p_id (production_history ?d))"
  let ?run = "\<lparr>p_id = ?new, p_product = p, p_capacity = c, p_quantity = n, p_date = now\<rparr>"
  let ?d2 = "?d\<lparr>inventory := deduct_loop_dbl (inventory ?d) (required_dbl c n ?df),
                 production_history := production_history ?d @ [?run],
                 seq_production := ?new\<rparr>"
  have st1: "store (calc_button_dbl df_sum a p c n) = ?d"
    by (simp add: calc_button_dbl_def Let_def)
  have conf: "confirm_button_dbl (calc_button_dbl df_sum a p c n) p c n now =
      (?new, \<lparr>store = ?d2,
               session_state = \<lparr>calc_done = False, used_table = [], sufficient = False\<rparr>\<rparr>)"
    by (simp add: confirm_button_dbl_def insert_production_history_dbl_def Let_def
        used_materials_of_calc_dbl st1)
  have fresh: "?new \<notin> set (map p_id (production_history ?d))" by (rule next_rowid_fresh)
  have found: "find (\<lambda>r. p_id r = ?new) (production_history ?d2) = Some ?run"
    using fresh by (simp add: find_fresh_last)
  have df2: "get_formula_df ?d2 p = ?df"
    by (rule get_formula_df_cong) simp
  have gone: "filter (\<lambda>r. p_id r \<noteq> ?new) (production_history ?d) = production_history ?d"
    using fresh by (rule filter_absent_key)
  have del: "delete_production_history_and_restore_dbl ?d2 ?new =
      (if ?df = [] then ((False, Msg_no_formula p), ?d2)
       else ((True, Msg_history_restored ?new),
             ?d2\<lparr>inventory := restore_loop_dbl (inventory ?d2) c n ?df,
                  production_history := production_history ?d\<rparr>))"
    using found df2
    by (simp add: delete_production_history_and_restore_dbl_def Let_def gone)
  show ?thesis
    unfolding confirm_then_delete_dbl_def Let_def conf using del by simp
qed

lemma inventory_after_confirm_dbl:
  "inventory (fst (confirm_then_delete_dbl df_sum a p c n now)) =
     map (\<lambda>r. r\<lparr>inv_stock := sub_chain (inv_stock r)
            (amounts_for (required_dbl c n (get_formula_df (store a) p)) (inv_name r))\<rparr>)
       (inventory (store a))"
  by (simp add: confirm_then_delete_dbl_unfold Let_def deduct_loop_dbl_as_map)

lemma inventory_after_delete_dbl:
  "inventory (snd (snd (confirm_then_delete_dbl df_sum a p c n now))) =
     map (\<lambda>r. r\<lparr>inv_stock := add_chain
            (sub_chain (inv_stock r)
              (amounts_for (required_dbl c n (get_formula_df (store a) p)) (inv_name r)))
            (amounts_for (required_dbl c n (get_formula_df (store a) p)) (inv_name r))\<rparr>)
       (inventory (store a))"
proof (cases "get_formula_df (store a) p = []")
  case True
  then show ?thesis
    by (simp add: confirm_then_delete_dbl_unfold Let_def deduct_loop_dbl_as_map
        required_dbl_def amounts_for_def)
next
  case False
  then show ?thesis
    by (simp add: confirm_then_delete_dbl_unfold Let_def deduct_loop_dbl_as_map
        restore_loop_dbl_as_map comp_def)
qed

lemma outcome_of_delete_dbl:
  "get_formula_df (store a) p \<noteq> [] \<Longrightarrow>
     fst (fst (snd (confirm_then_delete_dbl df_sum a p c n now))) = True
   \<and> production_history (snd (snd (confirm_then_delete_dbl df_sum a p c n now))) =
       production_history (store a)"
  by (simp add: confirm_then_delete_dbl_unfold Let_def)

lemma add_chain_append: "add_chain s (xs @ ys) = add_chain (add_chain s xs) ys"
  by (induction xs arbitrary: s) simp_all

lemma tx_step_distinct:
  "distinct (map t_id (fst st)) \<Longrightarrow> distinct (map t_id (fst (tx_step st c)))"
proof (cases st)
  case (Pair txs seq)
  assume "distinct (map t_id (fst st))"
  then have d: "distinct (map t_id txs)" by (simp add: Pair)
  show ?thesis
  proof (cases c)
    case (Record nm ty q memo now)
    show ?thesis
      unfolding Pair Record using d next_rowid_fresh [of seq "map t_id txs"] by simp
  next
    case (Delete trans_id)
    show ?thesis
      unfolding Pair Delete using d by (simp add: distinct_map_filter)
  qed
qed

lemma tx_run_distinct:
  "distinct (map t_id (fst st)) \<Longrightarrow> distinct (map t_id (fst (tx_run st cs)))"
proof (induction cs arbitrary: st)
  case Nil
  then show ?case by simp
next
  case (Cons c cs)
  from Cons.prems have "distinct (map t_id (fst (tx_step st c)))" by (rule tx_step_distinct)
  then show ?case unfolding tx_run.simps by (rule Cons.IH)
qed

lemma run_call_dbl_transactions:
  "(transactions (run_call_dbl d c), seq_transactions (run_call_dbl d c)) =
     tx_step (transactions d, seq_transactions d) c"
proof (cases c)
  case (Record nm ty q memo now)
  show ?thesis
    unfolding Record by (simp add: record_transaction_dbl_def Let_def)
next
  case (Delete trans_id)
  show ?thesis
  proof (cases "find (\<lambda>t. t_id t = trans_id) (transactions d)")
    case None
    then have "trans_id \<notin> set (map t_id (transactions d))"
      by (auto simp: find_None_iff)
    then have "filter (\<lambda>t. t_id t \<noteq> trans_id) (transactions d) = transactions d"
      by (rule filter_absent_key)
    with None show ?thesis
      unfolding Delete by (simp add: delete_transaction_and_restore_inventory_dbl_def)
  next
    case (Some row)
    then show ?thesis
      unfolding Delete by (simp add: delete_transaction_and_restore_inventory_dbl_def Let_def)
  qed
qed

lemma run_calls_dbl_transactions:
  "(transactions (run_calls_dbl d cs), seq_transactions (run_calls_dbl d cs)) =
     tx_run (transactions d, seq_transactions d) cs"
proof (induction cs arbitrary: d)
  case Nil
  show ?case by simp
next
  case (Cons c cs)
  show ?case
    unfolding run_calls_dbl.simps tx_run.simps Cons.IH run_call_dbl_transactions ..
qed

lemma run_call_dbl_inventory:
  "inventory (run_call_dbl d c) =
     map (\<lambda>r. r\<lparr>inv_stock :=
            add_chain (inv_stock r) (delta_of (transactions d) c (inv_name r))\<rparr>) (inventory d)"
proof (cases c)
  case (Record nm ty q memo now)
  show ?thesis
    unfolding Record
    by (simp add: record_transaction_dbl_def Let_def update_plus_dbl_def update_minus_dbl_def
        signed_delta_def)
next
  case (Delete trans_id)
  show ?thesis
  proof (cases "find (\<lambda>t. t_id t = trans_id) (transactions d)")
    case None
    then show ?thesis
      unfolding Delete by (simp add: delete_transaction_and_restore_inventory_dbl_def)
  next
    case (Some row)
    then show ?thesis
      unfolding Delete
      by (simp add: delete_transaction_and_restore_inventory_dbl_def Let_def
          update_plus_dbl_def update_minus_dbl_def signed_delta_def)
  qed
qed

lemma run_calls_dbl_inventory:
  "inventory (run_calls_dbl d cs) =
     map (\<lambda>r. r\<lparr>inv_stock :=
            add_chain (inv_stock r)
              (deltas (transactions d, seq_transactions d) cs (inv_name r))\<rparr>) (inventory d)"
proof (induction cs arbitrary: d)
  case Nil
  show ?case by simp
next
  case (Cons c cs)
  show ?case
    unfolding run_calls_dbl.simps Cons.IH run_call_dbl_transactions
    by (simp add: run_call_dbl_inventory comp_def add_chain_append)
qed

lemma delta_of_sum:
  assumes "distinct (map t_id txs)"
  shows "sum_list (delta_of txs c nm) = ledger (fst (tx_step (txs, seq) c)) nm - ledger txs nm"
proof (cases c)
  case (Record m ty q memo now)
  show ?thesis unfolding Record by (simp add: ledger_append)
next
  case (Delete trans_id)
  show ?thesis
  proof (cases "find (\<lambda>t. t_id t = trans_id) txs")
    case None
    then have "trans_id \<notin> set (map t_id txs)"
      by (auto simp: find_None_iff)
    then have "filter (\<lambda>t. t_id t \<noteq> trans_id) txs = txs"
      by (rule filter_absent_key)
    with None show ?thesis unfolding Delete by simp
  next
    case (Some row)
    show ?thesis
      unfolding Delete using Some by (simp add: ledger_delete [OF assms Some])
  qed
qed

lemma deltas_sum:
  "distinct (map t_id (fst st)) \<Longrightarrow>
   sum_list (deltas st cs nm) = ledger (fst (tx_run st cs)) nm - ledger (fst st) nm"
proof (induction cs arbitrary: st)
  case Nil
  show ?case by simp
next
  case (Cons c cs)
  obtain txs seq where st: "st = (txs, seq)" by (cases st)
  from Cons.prems have d: "distinct (map t_id txs)" by (simp add: st)
  have d1: "distinct (map t_id (fst (tx_step st c)))"
    using Cons.prems by (rule tx_step_distinct)
  have "sum_list (deltas st (c # cs) nm) =
      sum_list (delta_of txs c nm) + sum_list (deltas (tx_step st c) cs nm)"
    by (simp add: st)
  also have "\<dots> = (ledger (fst (tx_step st c)) nm - ledger txs nm) +
      (ledger (fst (tx_run (tx_step st c) cs)) nm - ledger (fst (tx_step st c)) nm)"
    using Cons.IH [OF d1] delta_of_sum [OF d, of c nm seq] by (simp add: st)
  finally show ?case by (simp add: st)
qed

lemma ledger_as_sum:
  assumes "distinct txs"
  shows "ledger txs nm =
     sum (\<lambda>t. signed_delta (t_type t) (t_quantity t)) {t \<in> set txs. t_material t = nm}"
proof -
  from assms have "distinct (filter (\<lambda>t. t_material t = nm) txs)" by simp
  then have "sum_list (map (\<lambda>t. signed_delta (t_type t) (t_quantity t))
        (filter (\<lambda>t. t_material t = nm) txs)) =
      sum (\<lambda>t. signed_delta (t_type t) (t_quantity t))
        (set (filter (\<lambda>t. t_material t = nm) txs))"
    by (rule sum_list_distinct_conv_sum_set)
  then show ?thesis by (simp add: ledger_def)
qed

lemma ledger_split:
  "ledger txs nm = ledger (filter P txs) nm + ledger (filter (\<lambda>t. \<not> P t) txs) nm"
  unfolding ledger_def by (induction txs) auto

lemma ledger_difference:
  assumes "distinct xs" and "distinct ys"
  shows "ledger xs nm - ledger ys nm = ledger_change ys xs nm"
proof -
  have common: "ledger (filter (\<lambda>t. t \<in> set ys) xs) nm = ledger (filter (\<lambda>t. t \<in> set xs) ys) nm"
  proof -
    have "{t \<in> set (filter (\<lambda>t. t \<in> set ys) xs). t_material t = nm} =
        {t \<in> set (filter (\<lambda>t. t \<in> set xs) ys). t_material t = nm}"
      by auto
    then show ?thesis
      using assms by (simp add: ledger_as_sum)
  qed
  have "ledger xs nm = ledger (filter (\<lambda>t. t \<in> set ys) xs) nm +
      ledger (filter (\<lambda>t. t \<notin> set ys) xs) nm"
    by (rule ledger_split)
  moreover have "ledger ys nm = ledger (filter (\<lambda>t. t \<in> set xs) ys) nm +
      ledger (filter (\<lambda>t. t \<notin> set xs) ys) nm"
    by (rule ledger_split)
  ultimately show ?thesis
    using common by (simp add: ledger_change_def)
qed

lemma deltas_sum_change:
  assumes "distinct (map t_id (transactions d))"
  shows "sum_list (deltas (transactions d, seq_transactions d) cs nm) =
     ledger_change (transactions d) (transactions (run_calls_dbl d cs)) nm"
proof -
  let ?st = "(transactions d, seq_transactions d)"
  have tx: "transactions (run_calls_dbl d cs) = fst (tx_run ?st cs)"
    using run_calls_dbl_transactions [of d cs] by (metis fst_conv)
  have d0: "distinct (map t_id (fst ?st))" using assms by simp
  have d1: "distinct (map t_id (fst (tx_run ?st cs)))"
    using d0 by (rule tx_run_distinct)
  have "sum_list (deltas ?st cs nm) = ledger (fst (tx_run ?st cs)) nm - ledger (transactions d) nm"
    using deltas_sum [OF d0, of cs nm] by simp
  also have "\<dots> = ledger_change (transactions d) (fst (tx_run ?st cs)) nm"
    using d1 assms by (intro ledger_difference) (simp_all add: distinct_map)
  finally show ?thesis by (simp add: tx)
qed

subsection \<open>Stock and ledger over a sequence of calls\<close>

text \<open>
  Claim C1, as amended. For every sequence of record and delete calls, started on a
  transactions table with distinct ids (the primary key): a record call appends a row
  with a fresh id and a delete call removes the row of its id; the stock of each
  inventory row is the stock before the sequence with the ledger adjustments that the
  calls make for the row's material added one after the other, each sum rounded to a
  double; these adjustments add up to the sum of the signed deltas (plus the quantity
  for inbound, minus the quantity for outbound) of the transactions of the material
  that the sequence recorded and that remain undeleted at its end, less the sum over
  the earlier transactions of the material that the sequence deleted; and for each row
  on which none of the additions rounds, the stock after the sequence equals the stock
  before it plus that amount. This holds for every sequence, however record and delete
  calls are interleaved, and for each row of a name that several rows carry.
\<close>

theorem stock_follows_the_adjustments:
  "distinct (map t_id (transactions d)) \<Longrightarrow>
     transactions (run_calls_dbl d cs) = fst (tx_run (transactions d, seq_transactions d) cs)
   \<and> length (inventory (run_calls_dbl d cs)) = length (inventory d)
   \<and> (\<forall>i < length (inventory d).
        inv_name (inventory (run_calls_dbl d cs) ! i) = inv_name (inventory d ! i)
      \<and> inv_stock (inventory (run_calls_dbl d cs) ! i) =
          add_chain (inv_stock (inventory d ! i))
            (deltas (transactions d, seq_transactions d) cs (inv_name (inventory d ! i)))
      \<and> (exact_add (inv_stock (inventory d ! i))
            (deltas (transactions d, seq_transactions d) cs (inv_name (inventory d ! i)))
         \<longrightarrow> inv_stock (inventory (run_calls_dbl d cs) ! i) =
               inv_stock (inventory d ! i) +
               ledger_change (transactions d) (transactions (run_calls_dbl d cs))
                 (inv_name (inventory d ! i))))
   \<and> sum_list (deltas (transactions d, seq_transactions d) cs nm) =
       ledger_change (transactions d) (transactions (run_calls_dbl d cs)) nm"
proof (intro conjI allI impI)
  show "transactions (run_calls_dbl d cs) =
      fst (tx_run (transactions d, seq_transactions d) cs)"
    using run_calls_dbl_transactions [of d cs] by (metis fst_conv)
  show "length (inventory (run_calls_dbl d cs)) = length (inventory d)"
    by (simp add: run_calls_dbl_inventory)
next
  assume "distinct (map t_id (transactions d))"
  then show "sum_list (deltas (transactions d, seq_transactions d) cs nm) =
      ledger_change (transactions d) (transactions (run_calls_dbl d cs)) nm"
    by (rule deltas_sum_change)
next
  fix i
  assume i: "i < length (inventory d)"
  then show "inv_name (inventory (run_calls_dbl d cs) ! i) = inv_name (inventory d ! i)"
    by (simp add: run_calls_dbl_inventory)
  from i show chain: "inv_stock (inventory (run_calls_dbl d cs) ! i) =
      add_chain (inv_stock (inventory d ! i))
        (deltas (transactions d, seq_transactions d) cs (inv_name (inventory d ! i)))"
    by (simp add: run_calls_dbl_inventory)
  assume dist: "distinct (map t_id (transactions d))"
    and exact: "exact_add (inv_stock (inventory d ! i))
      (deltas (transactions d, seq_transactions d) cs (inv_name (inventory d ! i)))"
  show "inv_stock (inventory (run_calls_dbl d cs) ! i) =
      inv_stock (inventory d ! i) +
      ledger_change (transactions d) (transactions (run_calls_dbl d cs))
        (inv_name (inventory d ! i))"
    unfolding chain exact_add_chain [OF exact] deltas_sum_change [OF dist] ..
qed

theorem stock_follows_the_adjustments_witness:
  "distinct (map t_id (transactions twin_db))
   \<and> map inv_stock (inventory twin_db) = [0, 0]
   \<and> deltas (transactions twin_db, seq_transactions twin_db)
         [Record ''Oil-A'' chulgo 30 ''batch'' 3, Delete 1,
          Record ''Oil-A'' ipgo 20 ''sample'' 4, Delete 3, Delete 9] ''Oil-A'' =
       [- 30, - 50, 20, - 20]
   \<and> exact_add 0 [- 30, - 50, 20, - 20]
   \<and> transactions (run_calls_dbl twin_db
         [Record ''Oil-A'' chulgo 30 ''batch'' 3, Delete 1,
          Record ''Oil-A'' ipgo 20 ''sample'' 4, Delete 3, Delete 9]) =
       [\<lparr>t_id = 2, t_material = ''Oil-A'', t_type = chulgo, t_quantity = 30, t_date = 3,
         t_memo = Some ''batch''\<rparr>]
   \<and> ledger_change (transactions twin_db) (transactions (run_calls_dbl twin_db
         [Record ''Oil-A'' chulgo 30 ''batch'' 3, Delete 1,
          Record ''Oil-A'' ipgo 20 ''sample'' 4, Delete 3, Delete 9])) ''Oil-A'' = - 30 - 50
   \<and> inv_stock (inventory (run_calls_dbl twin_db
         [Record ''Oil-A'' chulgo 30 ''batch'' 3, Delete 1,
          Record ''Oil-A'' ipgo 20 ''sample'' 4, Delete 3, Delete 9]) ! 0) = 0 + (- 30 - 50)
   \<and> inv_stock (inventory (run_calls_dbl twin_db
         [Record ''Oil-A'' chulgo 30 ''batch'' 3, Delete 1,
          Record ''Oil-A'' ipgo 20 ''sample'' 4, Delete 3, Delete 9]) ! 1) = 0 + (- 30 - 50)"
proof -
  let ?cs = "[Record ''Oil-A'' chulgo 30 ''batch'' 3, Delete 1,
          Record ''Oil-A'' ipgo 20 ''sample'' 4, Delete 3, Delete 9]"
  note eval = round_double_def scale_down.simps scale_up.simps nearest_even_def Let_def
  have d: "distinct (map t_id (transactions twin_db))"
    by (simp add: twin_db_def)
  note run = stock_follows_the_adjustments [OF d, of ?cs "''Oil-A''"]
  have inv: "inventory twin_db =
      [\<lparr>inv_id = 1, inv_name = ''Oil-A'', inv_stock = 0, inv_expiry = None, inv_vendor = None,
        inv_price = Some 0, inv_moq = Some 0, inv_lead = Some 0\<rparr>,
       \<lparr>inv_id = 2, inv_name = ''Oil-A'', inv_stock = 0, inv_expiry = None, inv_vendor = None,
        inv_price = Some 0, inv_moq = Some 0, inv_lead = Some 0\<rparr>]"
    by (simp add: twin_db_def two_oil_db_def add_new_ingredient_def empty_db_def
        next_rowid_def Let_def)
  have tx0: "transactions twin_db =
      [\<lparr>t_id = 1, t_material = ''Oil-A'', t_type = ipgo, t_quantity = 50, t_date = 1,
        t_memo = None\<rparr>]"
    and seq0: "seq_transactions twin_db = 1"
    by (simp_all add: twin_db_def)
  have ds: "deltas (transactions twin_db, seq_transactions twin_db) ?cs ''Oil-A'' =
      [- 30, - 50, 20, - 20]"
    unfolding tx0 seq0
    by (simp add: next_rowid_def signed_delta_def ipgo_def chulgo_def)
  have ex: "exact_add 0 [- 30, - 50, 20, - 20]"
    by (simp add: eval)
  have tx: "transactions (run_calls_dbl twin_db ?cs) =
      [\<lparr>t_id = 2, t_material = ''Oil-A'', t_type = chulgo, t_quantity = 30, t_date = 3,
        t_memo = Some ''batch''\<rparr>]"
    unfolding run [THEN conjunct1] tx0 seq0
    by (simp add: next_rowid_def)
  have lc: "ledger_change (transactions twin_db) (transactions (run_calls_dbl twin_db ?cs))
      ''Oil-A'' = - 30 - 50"
    unfolding tx tx0
    by (simp add: ledger_change_def ledger_def signed_delta_def ipgo_def chulgo_def)
  have len: "0 < length (inventory twin_db)" "1 < length (inventory twin_db)"
    by (simp_all add: inv)
  have row: "inv_stock (inventory twin_db ! 0) = 0" "inv_name (inventory twin_db ! 0) = ''Oil-A''"
    "inv_stock (inventory twin_db ! 1) = 0" "inv_name (inventory twin_db ! 1) = ''Oil-A''"
    by (simp_all add: inv)
  have r0: "inv_stock (inventory (run_calls_dbl twin_db ?cs) ! 0) = 0 + (- 30 - 50)"
    using run [THEN conjunct2, THEN conjunct2, THEN conjunct1, rule_format, OF len(1)]
    unfolding row ds lc using ex by simp
  have r1: "inv_stock (inventory (run_calls_dbl twin_db ?cs) ! 1) = 0 + (- 30 - 50)"
    using run [THEN conjunct2, THEN conjunct2, THEN conjunct1, rule_format, OF len(2)]
    unfolding row ds lc using ex by simp
  have stocks: "map inv_stock (inventory twin_db) = [0, 0]"
    by (simp add: inv)
  from d stocks ds ex tx lc r0 r1 show ?thesis by (intro conjI)
qed

text \<open>
  The claim as written, with the stock of the material after the sequence equal to its
  stock before plus the sum of the signed deltas of the transactions that remain, fails
  in three ways. Two inventory rows carry the name: from the database in which Oil-A
  was added twice, with no transactions, one inbound record of 50 g leaves one
  transaction of 50 g and the stocks 50 and 50, which sum to 100. The sequence deletes
  an earlier transaction: from the scenario database after a delivery of 50 g, with
  150 g of Oil-A in one row, deleting that delivery leaves no transaction and 100 g. A
  step rounds: from one row holding the double nearest to 0.1 and no transactions,
  recording an inbound transaction of the double nearest to 0.2 and deleting it again
  leaves no transaction and the stock 0.10000000000000003.
\<close>

theorem stock_follows_the_adjustments_counterexample:
  "transactions two_oil_db = []
   \<and> map inv_stock (inventory two_oil_db) = [0, 0]
   \<and> ledger (transactions (run_calls_dbl two_oil_db [Record ''Oil-A'' ipgo 50 ''delivery'' 1]))
       ''Oil-A'' = 50
   \<and> map inv_stock (inventory (run_calls_dbl two_oil_db [Record ''Oil-A'' ipgo 50 ''delivery'' 1])) =
       [50, 50]
   \<and> current_stock (inventory (run_calls_dbl two_oil_db [Record ''Oil-A'' ipgo 50 ''delivery'' 1]))
       ''Oil-A'' \<noteq>
       current_stock (inventory two_oil_db) ''Oil-A'' +
       ledger (transactions (run_calls_dbl two_oil_db [Record ''Oil-A'' ipgo 50 ''delivery'' 1]))
         ''Oil-A''
   \<and> map inv_stock (inventory stocked_db) = [150, 20]
   \<and> transactions (run_calls_dbl stocked_db [Delete 1]) = []
   \<and> map inv_stock (inventory (run_calls_dbl stocked_db [Delete 1])) = [100, 20]
   \<and> current_stock (inventory (run_calls_dbl stocked_db [Delete 1])) ''Oil-A'' \<noteq>
       current_stock (inventory stocked_db) ''Oil-A'' +
       ledger (transactions (run_calls_dbl stocked_db [Delete 1])) ''Oil-A''
   \<and> transactions one_tenth_db = []
   \<and> map inv_stock (inventory one_tenth_db) = [3602879701896397 / 36028797018963968]
   \<and> transactions (run_calls_dbl one_tenth_db
         [Record ''Oil-A'' ipgo (3602879701896397 / 18014398509481984) ''delivery'' 1, Delete 1]) = []
   \<and> map inv_stock (inventory (run_calls_dbl one_tenth_db
         [Record ''Oil-A'' ipgo (3602879701896397 / 18014398509481984) ''delivery'' 1, Delete 1])) =
       [1801439850948199 / 18014398509481984]
   \<and> current_stock (inventory (run_calls_dbl one_tenth_db
         [Record ''Oil-A'' ipgo (3602879701896397 / 18014398509481984) ''delivery'' 1, Delete 1]))
       ''Oil-A'' \<noteq>
       current_stock (inventory one_tenth_db) ''Oil-A'' +
       ledger (transactions (run_calls_dbl one_tenth_db
         [Record ''Oil-A'' ipgo (3602879701896397 / 18014398509481984) ''delivery'' 1, Delete 1]))
         ''Oil-A''"
proof -
  note eval = round_double_def scale_down.simps scale_up.simps nearest_even_def Let_def
  let ?a = "[Record ''Oil-A'' ipgo 50 ''delivery'' 1]"
  let ?b = "[Delete 1]"
  let ?c = "[Record ''Oil-A'' ipgo (3602879701896397 / 18014398509481984) ''delivery'' 1, Delete 1]"
  have a0: "transactions two_oil_db = []" "seq_transactions two_oil_db = 0"
    by (simp_all add: two_oil_db_def add_new_ingredient_def empty_db_def Let_def)
  have a1: "inventory two_oil_db =
      [\<lparr>inv_id = 1, inv_name = ''Oil-A'', inv_stock = 0, inv_expiry = None, inv_vendor = None,
        inv_price = Some 0, inv_moq = Some 0, inv_lead = Some 0\<rparr>,
       \<lparr>inv_id = 2, inv_name = ''Oil-A'', inv_stock = 0, inv_expiry = None, inv_vendor = None,
        inv_price = Some 0, inv_moq = Some 0, inv_lead = Some 0\<rparr>]"
    by (simp add: two_oil_db_def add_new_ingredient_def empty_db_def next_rowid_def Let_def)
  have a2: "transactions (run_calls_dbl two_oil_db ?a) =
      [\<lparr>t_id = 1, t_material = ''Oil-A'', t_type = ipgo, t_quantity = 50, t_date = 1,
        t_memo = Some ''delivery''\<rparr>]"
    using run_calls_dbl_transactions [of two_oil_db ?a]
    by (simp add: a0 next_rowid_def)
  have a3: "add_chain 0 [50] = 50"
    by (simp add: eval)
  have ai: "inventory (run_calls_dbl two_oil_db ?a) =
      [\<lparr>inv_id = 1, inv_name = ''Oil-A'', inv_stock = 50, inv_expiry = None, inv_vendor = None,
        inv_price = Some 0, inv_moq = Some 0, inv_lead = Some 0\<rparr>,
       \<lparr>inv_id = 2, inv_name = ''Oil-A'', inv_stock = 50, inv_expiry = None, inv_vendor = None,
        inv_price = Some 0, inv_moq = Some 0, inv_lead = Some 0\<rparr>]"
    unfolding run_calls_dbl_inventory a0 a1
    by (simp add: signed_delta_def a3 del: add_chain.simps(2))
  have a4: "map inv_stock (inventory (run_calls_dbl two_oil_db ?a)) = [50, 50]"
    unfolding ai by simp
  have a5: "ledger (transactions (run_calls_dbl two_oil_db ?a)) ''Oil-A'' = 50"
    unfolding a2 by (simp add: ledger_def signed_delta_def)
  have a6: "map inv_stock (inventory two_oil_db) = [0, 0]"
    by (simp add: a1)
  have a7: "current_stock (inventory (run_calls_dbl two_oil_db ?a)) ''Oil-A'' = 100"
    unfolding ai by (simp add: current_stock_def)
  have a8: "current_stock (inventory two_oil_db) ''Oil-A'' = 0"
    by (simp add: current_stock_def a1)
  have b0: "transactions stocked_db =
      [\<lparr>t_id = 1, t_material = ''Oil-A'', t_type = ipgo, t_quantity = 50, t_date = 1,
        t_memo = Some ''delivery''\<rparr>]" "seq_transactions stocked_db = 1"
    by (simp_all add: stocked_db_def record_transaction_def cream_db_def next_rowid_def Let_def)
  have b1: "inventory stocked_db = [oil_a\<lparr>inv_stock := 150\<rparr>, wax]"
    by (simp add: stocked_db_def record_inventory_shift cream_db_def oil_a_def wax_def
        signed_delta_def)
  have b2: "transactions (run_calls_dbl stocked_db ?b) = []"
    using run_calls_dbl_transactions [of stocked_db ?b]
    by (simp add: b0)
  have b3: "add_chain 150 [- 50] = 100"
    by (simp add: eval)
  have bi: "inventory (run_calls_dbl stocked_db ?b) = [oil_a\<lparr>inv_stock := 100\<rparr>, wax]"
    unfolding run_calls_dbl_inventory b0 b1
    by (simp add: signed_delta_def oil_a_def wax_def b3 del: add_chain.simps(2))
  have b4: "map inv_stock (inventory (run_calls_dbl stocked_db ?b)) = [100, 20]"
    unfolding bi by (simp add: oil_a_def wax_def)
  have b5: "map inv_stock (inventory stocked_db) = [150, 20]"
    by (simp add: b1 oil_a_def wax_def)
  have b6: "current_stock (inventory (run_calls_dbl stocked_db ?b)) ''Oil-A'' = 100"
    unfolding bi by (simp add: current_stock_def oil_a_def wax_def)
  have b7: "current_stock (inventory stocked_db) ''Oil-A'' = 150"
    by (simp add: current_stock_def b1 oil_a_def wax_def)
  have c0: "transactions one_tenth_db = []" "seq_transactions one_tenth_db = 0"
    by (simp_all add: one_tenth_db_def)
  have c1: "inventory one_tenth_db =
      [\<lparr>inv_id = 1, inv_name = ''Oil-A'', inv_stock = 3602879701896397 / 36028797018963968,
        inv_expiry = None, inv_vendor = None, inv_price = None, inv_moq = None,
        inv_lead = None\<rparr>]"
    by (simp add: one_tenth_db_def eval)
  have c2: "transactions (run_calls_dbl one_tenth_db ?c) = []"
    using run_calls_dbl_transactions [of one_tenth_db ?c]
    by (simp add: c0 next_rowid_def)
  have c3: "add_chain (3602879701896397 / 36028797018963968)
      [3602879701896397 / 18014398509481984, - (3602879701896397 / 18014398509481984)] =
      1801439850948199 / 18014398509481984"
    by (simp add: eval)
  have ci: "inventory (run_calls_dbl one_tenth_db ?c) =
      [\<lparr>inv_id = 1, inv_name = ''Oil-A'', inv_stock = 1801439850948199 / 18014398509481984,
        inv_expiry = None, inv_vendor = None, inv_price = None, inv_moq = None,
        inv_lead = None\<rparr>]"
    unfolding run_calls_dbl_inventory c0 c1
    by (simp add: next_rowid_def signed_delta_def c3 del: add_chain.simps(2))
  have c4: "map inv_stock (inventory (run_calls_dbl one_tenth_db ?c)) =
      [1801439850948199 / 18014398509481984]"
    unfolding ci by simp
  have c5: "map inv_stock (inventory one_tenth_db) = [3602879701896397 / 36028797018963968]"
    by (simp add: c1)
  have c6: "current_stock (inventory (run_calls_dbl one_tenth_db ?c)) ''Oil-A'' =
      1801439850948199 / 18014398509481984"
    unfolding ci by (simp add: current_stock_def)
  have c7: "current_stock (inventory one_tenth_db) ''Oil-A'' =
      3602879701896397 / 36028797018963968"
    by (simp add: current_stock_def c1)
  have na: "current_stock (inventory (run_calls_dbl two_oil_db ?a)) ''Oil-A'' \<noteq>
      current_stock (inventory two_oil_db) ''Oil-A'' +
      ledger (transactions (run_calls_dbl two_oil_db ?a)) ''Oil-A''"
    unfolding a7 a8 a5 by simp
  have nb: "current_stock (inventory (run_calls_dbl stocked_db ?b)) ''Oil-A'' \<noteq>
      current_stock (inventory stocked_db) ''Oil-A'' +
      ledger (transactions (run_calls_dbl stocked_db ?b)) ''Oil-A''"
    unfolding b6 b7 b2 by (simp add: ledger_def)
  have nc: "current_stock (inventory (run_calls_dbl one_tenth_db ?c)) ''Oil-A'' \<noteq>
      current_stock (inventory one_tenth_db) ''Oil-A'' +
      ledger (transactions (run_calls_dbl one_tenth_db ?c)) ''Oil-A''"
    unfolding c6 c7 c2 by (simp add: ledger_def)
  from a0(1) a6 a5 a4 na b5 b2 b4 nb c0(1) c5 c2 c4 nc show ?thesis by (intro conjI)
qed

subsection \<open>Confirming a production run and deleting it again\<close>

text \<open>
  Claim C2, as amended. For every product, unit capacity and unit count: confirming the
  run with the calculated requirements subtracts from the stock of each inventory row,
  one after the other and each result rounded to a double, the requirements of the
  formula entries of the row's material; deleting the run right afterwards adds the
  same amounts back in the same way, succeeds when the product has a formula, and
  removes the run row again. A row whose subtractions and additions all come out exact
  has its stock back at exactly the value before the confirmation; for a row with a
  step that rounds no equality is stated.
\<close>

theorem confirm_then_delete_puts_back_the_amounts:
  "inventory (fst (confirm_then_delete_dbl df_sum a p c n now)) =
     map (\<lambda>r. r\<lparr>inv_stock := sub_chain (inv_stock r)
            (amounts_for (required_dbl c n (get_formula_df (store a) p)) (inv_name r))\<rparr>)
       (inventory (store a))
   \<and> inventory (snd (snd (confirm_then_delete_dbl df_sum a p c n now))) =
       map (\<lambda>r. r\<lparr>inv_stock := add_chain
              (sub_chain (inv_stock r)
                (amounts_for (required_dbl c n (get_formula_df (store a) p)) (inv_name r)))
              (amounts_for (required_dbl c n (get_formula_df (store a) p)) (inv_name r))\<rparr>)
         (inventory (store a))
   \<and> (get_formula_df (store a) p = []
      \<or> fst (fst (snd (confirm_then_delete_dbl df_sum a p c n now))) = True
        \<and> production_history (snd (snd (confirm_then_delete_dbl df_sum a p c n now))) =
            production_history (store a))
   \<and> (\<forall>i < length (inventory (store a)).
        exact_sub (inv_stock (inventory (store a) ! i))
          (amounts_for (required_dbl c n (get_formula_df (store a) p))
             (inv_name (inventory (store a) ! i)))
        \<longrightarrow> exact_add
          (inv_stock (inventory (store a) ! i) -
             sum_list (amounts_for (required_dbl c n (get_formula_df (store a) p))
               (inv_name (inventory (store a) ! i))))
          (amounts_for (required_dbl c n (get_formula_df (store a) p))
             (inv_name (inventory (store a) ! i)))
        \<longrightarrow> inventory (snd (snd (confirm_then_delete_dbl df_sum a p c n now))) ! i =
              inventory (store a) ! i)"
proof (intro conjI allI impI)
  show "inventory (fst (confirm_then_delete_dbl df_sum a p c n now)) =
     map (\<lambda>r. r\<lparr>inv_stock := sub_chain (inv_stock r)
            (amounts_for (required_dbl c n (get_formula_df (store a) p)) (inv_name r))\<rparr>)
       (inventory (store a))"
    by (rule inventory_after_confirm_dbl)
  show "inventory (snd (snd (confirm_then_delete_dbl df_sum a p c n now))) =
       map (\<lambda>r. r\<lparr>inv_stock := add_chain
              (sub_chain (inv_stock r)
                (amounts_for (required_dbl c n (get_formula_df (store a) p)) (inv_name r)))
              (amounts_for (required_dbl c n (get_formula_df (store a) p)) (inv_name r))\<rparr>)
         (inventory (store a))"
    by (rule inventory_after_delete_dbl)
  show "get_formula_df (store a) p = []
      \<or> fst (fst (snd (confirm_then_delete_dbl df_sum a p c n now))) = True
        \<and> production_history (snd (snd (confirm_then_delete_dbl df_sum a p c n now))) =
            production_history (store a)"
    using outcome_of_delete_dbl [of a p df_sum c n now] by blast
next
  fix i
  let ?r = "inventory (store a) ! i"
  let ?as = "amounts_for (required_dbl c n (get_formula_df (store a) p)) (inv_name ?r)"
  assume i: "i < length (inventory (store a))"
    and sub: "exact_sub (inv_stock ?r) ?as"
    and add: "exact_add (inv_stock ?r - sum_list ?as) ?as"
  have "add_chain (sub_chain (inv_stock ?r) ?as) ?as = inv_stock ?r"
    using exact_sub_chain [OF sub] exact_add_chain [OF add] by simp
  then show "inventory (snd (snd (confirm_then_delete_dbl df_sum a p c n now))) ! i = ?r"
    unfolding inventory_after_delete_dbl using i by simp
qed

theorem confirm_then_delete_puts_back_the_amounts_witness:
  "required_dbl 50 10 (get_formula_df whole_grams_db ''Cream-X'') = [(''Oil-A'', 50)]
   \<and> map inv_stock (inventory whole_grams_db) = [100, 20]
   \<and> exact_sub 100 [50]
   \<and> exact_add (100 - 50) [50]
   \<and> map inv_stock (inventory (fst (confirm_then_delete_dbl sum_list
         \<lparr>store = whole_grams_db, session_state = fresh_session\<rparr> ''Cream-X'' 50 10 3))) =
       [50, 20]
   \<and> fst (fst (snd (confirm_then_delete_dbl sum_list
         \<lparr>store = whole_grams_db, session_state = fresh_session\<rparr> ''Cream-X'' 50 10 3))) = True
   \<and> inventory (snd (snd (confirm_then_delete_dbl sum_list
         \<lparr>store = whole_grams_db, session_state = fresh_session\<rparr> ''Cream-X'' 50 10 3))) =
       inventory whole_grams_db"
proof -
  note eval = round_double_def scale_down.simps scale_up.simps nearest_even_def Let_def
  note run = confirm_then_delete_puts_back_the_amounts
      [of sum_list "\<lparr>store = whole_grams_db, session_state = fresh_session\<rparr>" "''Cream-X''" 50 10 3]
  have df: "get_formula_df whole_grams_db ''Cream-X'' = [(''Oil-A'', round_double (1 / 10))]"
    by (simp add: get_formula_df_def whole_grams_db_def cream_db_def)
  have req: "required_dbl 50 10 (get_formula_df whole_grams_db ''Cream-X'') = [(''Oil-A'', 50)]"
    unfolding df by (simp add: required_dbl_def eval)
  have inv: "inventory whole_grams_db = [oil_a, wax]"
    by (simp add: whole_grams_db_def cream_db_def)
  have steps: "round_double 50 = 50" "round_double 100 = 100"
    by (simp_all add: eval)
  have c1: "map inv_stock (inventory (fst (confirm_then_delete_dbl sum_list
         \<lparr>store = whole_grams_db, session_state = fresh_session\<rparr> ''Cream-X'' 50 10 3))) =
       [50, 20]"
    using run [THEN conjunct1]
    by (simp add: req inv amounts_for_def oil_a_def wax_def steps)
  have c2: "inventory (snd (snd (confirm_then_delete_dbl sum_list
         \<lparr>store = whole_grams_db, session_state = fresh_session\<rparr> ''Cream-X'' 50 10 3))) =
       inventory whole_grams_db"
    using run [THEN conjunct2, THEN conjunct1]
    by (simp add: req inv amounts_for_def oil_a_def wax_def steps)
  have c3: "fst (fst (snd (confirm_then_delete_dbl sum_list
         \<lparr>store = whole_grams_db, session_state = fresh_session\<rparr> ''Cream-X'' 50 10 3))) = True"
    using run [THEN conjunct2, THEN conjunct2, THEN conjunct1]
    by (simp add: df)
  have c4: "map inv_stock (inventory whole_grams_db) = [100, 20]"
    by (simp add: inv oil_a_def wax_def)
  have c5: "exact_sub 100 [50]" "exact_add (100 - 50) [50]"
    by (simp_all add: steps)
  from req c4 c5 c1 c3 c2 show ?thesis by (intro conjI)
qed

text \<open>
  The claim as written, with the stock back at exactly its earlier value, fails where a
  step rounds: with the double nearest to 0.9 in stock, a usage of the double nearest to
  0.2, capacity 1 and one unit, the confirmation leaves the double nearest to 0.7 and
  the deletion, which succeeds, leaves 0.8999999999999999 (the double just below the
  one the stock had).
\<close>

theorem confirm_then_delete_puts_back_the_amounts_counterexample:
  "map inv_stock (inventory nine_tenths_db) = [8106479329266893 / 9007199254740992]
   \<and> required_dbl 1 1 (get_formula_df nine_tenths_db ''Cream-X'') =
       [(''Oil-A'', 3602879701896397 / 18014398509481984)]
   \<and> map inv_stock (inventory (fst (confirm_then_delete_dbl sum_list
         \<lparr>store = nine_tenths_db, session_state = fresh_session\<rparr> ''Cream-X'' 1 1 3))) =
       [3152519739159347 / 4503599627370496]
   \<and> fst (fst (snd (confirm_then_delete_dbl sum_list
         \<lparr>store = nine_tenths_db, session_state = fresh_session\<rparr> ''Cream-X'' 1 1 3))) = True
   \<and> map inv_stock (inventory (snd (snd (confirm_then_delete_dbl sum_list
         \<lparr>store = nine_tenths_db, session_state = fresh_session\<rparr> ''Cream-X'' 1 1 3)))) =
       [2026619832316723 / 2251799813685248]
   \<and> inventory (snd (snd (confirm_then_delete_dbl sum_list
         \<lparr>store = nine_tenths_db, session_state = fresh_session\<rparr> ''Cream-X'' 1 1 3))) \<noteq>
       inventory nine_tenths_db"
proof -
  note eval = round_double_def scale_down.simps scale_up.simps nearest_even_def Let_def
  have inv: "inventory nine_tenths_db =
      [\<lparr>inv_id = 1, inv_name = ''Oil-A'', inv_stock = 8106479329266893 / 9007199254740992,
        inv_expiry = None, inv_vendor = None, inv_price = None, inv_moq = None,
        inv_lead = None\<rparr>]"
    by (simp add: nine_tenths_db_def eval)
  have req: "required_dbl 1 1 (get_formula_df nine_tenths_db ''Cream-X'') =
      [(''Oil-A'', 3602879701896397 / 18014398509481984)]"
    by (simp add: get_formula_df_def nine_tenths_db_def required_dbl_def eval)
  have down: "sub_chain (8106479329266893 / 9007199254740992)
      [3602879701896397 / 18014398509481984] = 3152519739159347 / 4503599627370496"
    by (simp add: eval)
  have up: "add_chain (3152519739159347 / 4503599627370496)
      [3602879701896397 / 18014398509481984] = 2026619832316723 / 2251799813685248"
    by (simp add: eval)
  have c1: "map inv_stock (inventory nine_tenths_db) = [8106479329266893 / 9007199254740992]"
    by (simp add: inv)
  have c3: "map inv_stock (inventory (fst (confirm_then_delete_dbl sum_list
         \<lparr>store = nine_tenths_db, session_state = fresh_session\<rparr> ''Cream-X'' 1 1 3))) =
       [3152519739159347 / 4503599627370496]"
    by (simp add: inventory_after_confirm_dbl req inv amounts_for_def down
        del: sub_chain.simps)
  have c4: "fst (fst (snd (confirm_then_delete_dbl sum_list
         \<lparr>store = nine_tenths_db, session_state = fresh_session\<rparr> ''Cream-X'' 1 1 3))) = True"
  proof -
    have "get_formula_df (store \<lparr>store = nine_tenths_db, session_state = fresh_session\<rparr>)
        ''Cream-X'' \<noteq> []"
      by (simp add: get_formula_df_def nine_tenths_db_def)
    then show ?thesis by (simp add: outcome_of_delete_dbl)
  qed
  have c5: "map inv_stock (inventory (snd (snd (confirm_then_delete_dbl sum_list
         \<lparr>store = nine_tenths_db, session_state = fresh_session\<rparr> ''Cream-X'' 1 1 3)))) =
       [2026619832316723 / 2251799813685248]"
    by (simp add: inventory_after_delete_dbl req inv amounts_for_def down up
        del: sub_chain.simps add_chain.simps)
  have c6: "inventory (snd (snd (confirm_then_delete_dbl sum_list
         \<lparr>store = nine_tenths_db, session_state = fresh_session\<rparr> ''Cream-X'' 1 1 3))) \<noteq>
       inventory nine_tenths_db"
  proof
    assume "inventory (snd (snd (confirm_then_delete_dbl sum_list
         \<lparr>store = nine_tenths_db, session_state = fresh_session\<rparr> ''Cream-X'' 1 1 3))) =
       inventory nine_tenths_db"
    with c5 c1 show False by simp
  qed
  from c1 req c3 c4 c5 c6 show ?thesis by (intro conjI)
qed

end
